theory Spec2Isabelle
  imports Complex_Main
begin

section \<open>Data model\<close>

text \<open>
  The development embeds the capture-gate-publish pipeline of the Android collector:
  \<^verbatim>\<open>DataCollectionService.kt\<close> (the revision with \<^verbatim>\<open>LiveSensorState\<close> and the
  fixed-rate \<^verbatim>\<open>dataSendTimer\<close>) and \<^verbatim>\<open>MqttClient.kt\<close>.

  The values of Kotlin \<^verbatim>\<open>Float\<close> and \<^verbatim>\<open>Double\<close> are \<open>real\<close> numbers; NaN and the
  infinities do not exist. In the change gate the literals \<^verbatim>\<open>0.5f\<close>, \<^verbatim>\<open>0.3f\<close>, \<^verbatim>\<open>0.05f\<close>
  are the reals 0.5, 0.3, 0.05 and the subtraction is exact. The two magnitudes are
  computed in \<^verbatim>\<open>Float\<close> arithmetic, every operation rounded to binary32 (section
  "Float arithmetic"). \<^verbatim>\<open>Long\<close> and \<^verbatim>\<open>Int\<close> are \<open>int\<close>; no arithmetic is done on them.
  Every callback is one atomic step; the interleaving of threads inside a callback is
  outside the model.
\<close>

type_synonym Throwable = string

text \<open>\<^verbatim>\<open>data class RealTimeStats\<close> of \<^verbatim>\<open>DataRepository.kt\<close>.\<close>

record RealTimeStats =
  accMag :: real
  gyroMag :: real
  speed :: real
  latitude :: real
  longitude :: real

text \<open>\<^verbatim>\<open>data class TelematicsData\<close>: the frame serialised for the broker.\<close>

record TelematicsData =
  timestamp :: int
  tripId :: string
  label :: int
  accX :: real
  accY :: real
  accZ :: real
  accMag :: real
  gyroX :: real
  gyroY :: real
  gyroZ :: real
  gyroMag :: real
  rotVecX :: real
  rotVecY :: real
  rotVecZ :: real
  rotVecW :: real
  latitude :: real
  longitude :: real
  speed :: real
  altitude :: real

text \<open>\<^verbatim>\<open>private data class LiveSensorState\<close>.\<close>

record LiveSensorState =
  accX :: real
  accY :: real
  accZ :: real
  gyroX :: real
  gyroY :: real
  gyroZ :: real
  rotVecX :: real
  rotVecY :: real
  rotVecZ :: real
  rotVecW :: real
  latitude :: real
  longitude :: real
  speed :: real
  altitude :: real

text \<open>The constructor call \<^verbatim>\<open>LiveSensorState()\<close> with every default argument.\<close>

definition LiveSensorState_default :: LiveSensorState where
  "LiveSensorState_default =
     \<lparr> LiveSensorState.accX = 0, LiveSensorState.accY = 0, LiveSensorState.accZ = 0,
       LiveSensorState.gyroX = 0, LiveSensorState.gyroY = 0, LiveSensorState.gyroZ = 0,
       LiveSensorState.rotVecX = 0, LiveSensorState.rotVecY = 0,
       LiveSensorState.rotVecZ = 0, LiveSensorState.rotVecW = 1,
       LiveSensorState.latitude = 0, LiveSensorState.longitude = 0,
       LiveSensorState.speed = 0, LiveSensorState.altitude = 0 \<rparr>"

text \<open>
  The two framework values the callbacks receive. A \<^verbatim>\<open>SensorEvent\<close> carries the type
  of its sensor and the \<^verbatim>\<open>values\<close> array (here \<open>eventValues\<close>), of any length; a
  \<^verbatim>\<open>Location\<close> is read through its four getters.
\<close>

datatype SensorType = TYPE_ACCELEROMETER | TYPE_GYROSCOPE | TYPE_ROTATION_VECTOR | TYPE_OTHER

record SensorEvent =
  sensorType :: SensorType
  eventValues :: "real list"

record Location =
  getLatitude :: real
  getLongitude :: real
  getSpeed :: real
  getAltitude :: real

datatype exn = ArrayIndexOutOfBoundsException nat

section \<open>Transport: \<^verbatim>\<open>MqttClient.kt\<close>\<close>

datatype level = D | W | E

text \<open>
  The wrapper together with the Paho client it owns. \<open>isConnected\<close> is the Paho client's
  own flag, \<open>callbackInstalled\<close> says that \<^verbatim>\<open>setCallback\<close> has run, \<open>connectRequests\<close>
  counts the calls of the Paho \<^verbatim>\<open>connect\<close>, \<open>delivered\<close> lists the messages handed to
  the Paho \<^verbatim>\<open>publish\<close> on \<^verbatim>\<open>MQTT_TOPIC\<close>, \<open>logcat\<close> the \<^verbatim>\<open>Log\<close> lines. The JSON
  payload is identified with the frame it encodes.
\<close>

record MqttClient =
  isConnected :: bool
  callbackInstalled :: bool
  connectRequests :: nat
  delivered :: "TelematicsData list"
  logcat :: "(level \<times> string) list"

definition MqttClient_new :: MqttClient where
  "MqttClient_new =
     \<lparr> isConnected = False, callbackInstalled = False, connectRequests = 0,
       delivered = [], logcat = [] \<rparr>"

definition logLine :: "level \<Rightarrow> string \<Rightarrow> MqttClient \<Rightarrow> MqttClient" where
  "logLine lv msg c = c\<lparr> logcat := logcat c @ [(lv, msg)] \<rparr>"

text \<open>Invocations of the caller's two callbacks, in order.\<close>

datatype callback = OnSuccess | OnFailure Throwable

text \<open>
  \<^verbatim>\<open>fun connect(onSuccess, onFailure)\<close>. The argument \<open>raised\<close> is the \<^verbatim>\<open>MqttException\<close>
  the Paho \<^verbatim>\<open>connect\<close> call throws, if it throws.
\<close>

definition connect :: "Throwable option \<Rightarrow> MqttClient \<Rightarrow> callback list \<times> MqttClient" where
  "connect raised c =
     (if isConnected c then ([OnSuccess], c)
      else
        let c1 = c\<lparr> callbackInstalled := True \<rparr> in
        case raised of
          None \<Rightarrow> ([], c1\<lparr> connectRequests := connectRequests c1 + 1 \<rparr>)
        | Some e \<Rightarrow> ([OnFailure e], c1))"

text \<open>The handlers installed by \<^verbatim>\<open>connect\<close>: \<^verbatim>\<open>MqttCallbackExtended\<close> and the action listener.\<close>

definition connectComplete :: "bool \<Rightarrow> MqttClient \<Rightarrow> callback list \<times> MqttClient" where
  "connectComplete reconnect c =
     ([OnSuccess],
      logLine D (''MQTT Connection Complete (reconnect: ''
                 @ (if reconnect then ''true'' else ''false'') @ '')'') c)"

definition connectionLost :: "Throwable \<Rightarrow> MqttClient \<Rightarrow> callback list \<times> MqttClient" where
  "connectionLost cause c = ([], logLine E (''MQTT Connection Lost: '' @ cause) c)"

definition actionOnSuccess :: "MqttClient \<Rightarrow> callback list \<times> MqttClient" where
  "actionOnSuccess c = ([], logLine D ''MQTT Connection Success'' c)"

definition actionOnFailure :: "Throwable \<Rightarrow> MqttClient \<Rightarrow> callback list \<times> MqttClient" where
  "actionOnFailure exception c =
     ([OnFailure exception], logLine E (''MQTT Connection Failure: '' @ exception) c)"

text \<open>
  \<^verbatim>\<open>fun publish(payload)\<close>; \<open>raised\<close> is what the Paho \<^verbatim>\<open>publish\<close> throws, if it throws.
\<close>

definition publish :: "Throwable option \<Rightarrow> TelematicsData \<Rightarrow> MqttClient \<Rightarrow> MqttClient" where
  "publish raised payload c =
     (if \<not> isConnected c
      then logLine W ''MQTT client is not connected. Cannot publish.'' c
      else
        case raised of
          None \<Rightarrow> logLine D ''Published message to telematics/data''
                    (c\<lparr> delivered := delivered c @ [payload] \<rparr>)
        | Some e \<Rightarrow> logLine E (''Error publishing message: '' @ e) c)"

definition disconnect :: "MqttClient \<Rightarrow> MqttClient" where
  "disconnect c =
     (if isConnected c
      then logLine D ''MQTT client disconnected.'' (c\<lparr> isConnected := False \<rparr>)
      else c)"

text \<open>
  What the Paho client does on its own, as events of the environment: it completes a
  connection (the first one or an automatic reconnect), loses it, or reports the outcome
  of the connect action. Each event sets the client's flag and runs the handler that
  \<open>connect\<close> has installed: the callback object, once \<^verbatim>\<open>setCallback\<close> has run, and the
  action listener, once a connect request has been made.
\<close>

datatype pahoEvent =
    ConnectComplete bool
  | ConnectionLost Throwable
  | ActionSuccess
  | ActionFailure Throwable

fun paho :: "pahoEvent \<Rightarrow> MqttClient \<Rightarrow> callback list \<times> MqttClient" where
  "paho (ConnectComplete reconnect) c =
     (let c1 = c\<lparr> isConnected := True \<rparr>
      in if callbackInstalled c then connectComplete reconnect c1 else ([], c1))"
| "paho (ConnectionLost cause) c =
     (let c1 = c\<lparr> isConnected := False \<rparr>
      in if callbackInstalled c then connectionLost cause c1 else ([], c1))"
| "paho ActionSuccess c = (if 0 < connectRequests c then actionOnSuccess c else ([], c))"
| "paho (ActionFailure exception) c =
     (if 0 < connectRequests c then actionOnFailure exception c else ([], c))"

datatype transportOp = Connect "Throwable option" | Paho pahoEvent

fun transportStep :: "transportOp \<Rightarrow> MqttClient \<Rightarrow> callback list \<times> MqttClient" where
  "transportStep (Connect raised) c = connect raised c"
| "transportStep (Paho ev) c = paho ev c"

fun transportRun :: "transportOp list \<Rightarrow> MqttClient \<Rightarrow> callback list \<times> MqttClient" where
  "transportRun [] c = ([], c)"
| "transportRun (op # ops) c =
     (let (cbs, c1) = transportStep op c; (cbs', c2) = transportRun ops c1
      in (cbs @ cbs', c2))"

section \<open>Float arithmetic\<close>

text \<open>
  An operation on \<^verbatim>\<open>Float\<close> values returns the exact result rounded to binary32:
  to the nearest value with a significand of 24 bits, a tie going to the even
  significand, with the exponent not below that of the subnormal numbers.
  \<open>float32\<close> is this rounding. A result beyond the largest finite \<^verbatim>\<open>Float\<close> has no
  counterpart here: the machine returns \<^verbatim>\<open>Infinity\<close>, \<open>float32\<close> the rounded real.

  \<open>magnitude x y z\<close> is \<^verbatim>\<open>kotlin.math.sqrt(x * x + y * y + z * z)\<close> on \<^verbatim>\<open>Float\<close>
  operands: three products, two sums from left to right and the square root, each
  rounded. (The library takes the root in \<^verbatim>\<open>Double\<close> and converts back; a
  \<^verbatim>\<open>Double\<close> carries enough digits for the result to be the root rounded once.)
\<close>

definition roundTiesToEven :: "real \<Rightarrow> int" where
  "roundTiesToEven y =
     (let n = \<lfloor>y\<rfloor>; d = y - of_int n
      in if d < 1 / 2 then n else if 1 / 2 < d then n + 1 else if even n then n else n + 1)"

definition float32 :: "real \<Rightarrow> real" where
  "float32 x =
     (if x = 0 then 0
      else
        let e = max \<lfloor>log 2 \<bar>x\<bar>\<rfloor> (- 126);
            q = 2 powr (of_int e - 23)
        in q * of_int (roundTiesToEven (x / q)))"

definition magnitude :: "real \<Rightarrow> real \<Rightarrow> real \<Rightarrow> real" where
  "magnitude x y z =
     float32 (sqrt (float32 (float32 (float32 (x * x) + float32 (y * y)) + float32 (z * z))))"

section \<open>The service: \<^verbatim>\<open>DataCollectionService.kt\<close>\<close>

definition ACCEL_THRESHOLD :: real where "ACCEL_THRESHOLD = 0.5"
definition GYRO_THRESHOLD :: real where "GYRO_THRESHOLD = 0.3"
definition ROT_VEC_THRESHOLD :: real where "ROT_VEC_THRESHOLD = 0.05"

text \<open>
  The fields of the service the pipeline reads and writes. \<open>statsFlow\<close> and
  \<open>isServiceRunningFlow\<close> are the values emitted so far on the two flows of
  \<^verbatim>\<open>DataRepository\<close>, oldest first.
\<close>

record DataCollectionService =
  mqttClient :: "MqttClient option"
  tripId :: string
  currentLabel :: int
  liveSensorState :: LiveSensorState
  lastPublishedState :: LiveSensorState
  statsFlow :: "RealTimeStats list"
  isServiceRunningFlow :: "bool list"

definition DataCollectionService_new :: "string \<Rightarrow> DataCollectionService" where
  "DataCollectionService_new uuid =
     \<lparr> mqttClient = None, DataCollectionService.tripId = uuid, currentLabel = 0,
       liveSensorState = LiveSensorState_default,
       lastPublishedState = LiveSensorState_default,
       statsFlow = [], isServiceRunningFlow = [] \<rparr>"

text \<open>\<^verbatim>\<open>private fun hasStateChanged(): Boolean\<close>.\<close>

definition hasStateChanged :: "DataCollectionService \<Rightarrow> bool" where
  "hasStateChanged s =
     (let lastP = lastPublishedState s; live = liveSensorState s;
          accChanged =
            (\<bar>LiveSensorState.accX lastP - LiveSensorState.accX live\<bar> > ACCEL_THRESHOLD \<or>
             \<bar>LiveSensorState.accY lastP - LiveSensorState.accY live\<bar> > ACCEL_THRESHOLD \<or>
             \<bar>LiveSensorState.accZ lastP - LiveSensorState.accZ live\<bar> > ACCEL_THRESHOLD);
          gyroChanged =
            (\<bar>LiveSensorState.gyroX lastP - LiveSensorState.gyroX live\<bar> > GYRO_THRESHOLD \<or>
             \<bar>LiveSensorState.gyroY lastP - LiveSensorState.gyroY live\<bar> > GYRO_THRESHOLD \<or>
             \<bar>LiveSensorState.gyroZ lastP - LiveSensorState.gyroZ live\<bar> > GYRO_THRESHOLD);
          rotVecChanged =
            (\<bar>LiveSensorState.rotVecX lastP - LiveSensorState.rotVecX live\<bar> > ROT_VEC_THRESHOLD \<or>
             \<bar>LiveSensorState.rotVecY lastP - LiveSensorState.rotVecY live\<bar> > ROT_VEC_THRESHOLD \<or>
             \<bar>LiveSensorState.rotVecZ lastP - LiveSensorState.rotVecZ live\<bar> > ROT_VEC_THRESHOLD);
          locationChanged =
            (LiveSensorState.latitude lastP \<noteq> LiveSensorState.latitude live \<or>
             LiveSensorState.longitude lastP \<noteq> LiveSensorState.longitude live)
      in accChanged \<or> gyroChanged \<or> rotVecChanged \<or> locationChanged)"

text \<open>
  The decision as the specification words it, on a current and a last-published
  snapshot: one predicate for each channel, each over the absolute deltas of its axes.
\<close>

definition accelExceeds :: "LiveSensorState \<Rightarrow> LiveSensorState \<Rightarrow> bool" where
  "accelExceeds cur lastP \<longleftrightarrow>
     \<bar>LiveSensorState.accX cur - LiveSensorState.accX lastP\<bar> > 0.5 \<or>
     \<bar>LiveSensorState.accY cur - LiveSensorState.accY lastP\<bar> > 0.5 \<or>
     \<bar>LiveSensorState.accZ cur - LiveSensorState.accZ lastP\<bar> > 0.5"

definition gyroExceeds :: "LiveSensorState \<Rightarrow> LiveSensorState \<Rightarrow> bool" where
  "gyroExceeds cur lastP \<longleftrightarrow>
     \<bar>LiveSensorState.gyroX cur - LiveSensorState.gyroX lastP\<bar> > 0.3 \<or>
     \<bar>LiveSensorState.gyroY cur - LiveSensorState.gyroY lastP\<bar> > 0.3 \<or>
     \<bar>LiveSensorState.gyroZ cur - LiveSensorState.gyroZ lastP\<bar> > 0.3"

definition rotVecExceeds :: "LiveSensorState \<Rightarrow> LiveSensorState \<Rightarrow> bool" where
  "rotVecExceeds cur lastP \<longleftrightarrow>
     \<bar>LiveSensorState.rotVecX cur - LiveSensorState.rotVecX lastP\<bar> > 0.05 \<or>
     \<bar>LiveSensorState.rotVecY cur - LiveSensorState.rotVecY lastP\<bar> > 0.05 \<or>
     \<bar>LiveSensorState.rotVecZ cur - LiveSensorState.rotVecZ lastP\<bar> > 0.05"

definition positionDiffers :: "LiveSensorState \<Rightarrow> LiveSensorState \<Rightarrow> bool" where
  "positionDiffers cur lastP \<longleftrightarrow>
     \<bar>LiveSensorState.latitude cur - LiveSensorState.latitude lastP\<bar> > 0 \<or>
     \<bar>LiveSensorState.longitude cur - LiveSensorState.longitude lastP\<bar> > 0"

definition shouldPublish :: "LiveSensorState \<Rightarrow> LiveSensorState \<Rightarrow> bool" where
  "shouldPublish cur lastP \<longleftrightarrow>
     accelExceeds cur lastP \<or> gyroExceeds cur lastP \<or> rotVecExceeds cur lastP \<or>
     positionDiffers cur lastP"

text \<open>\<^verbatim>\<open>private fun publishData(data)\<close>: \<^verbatim>\<open>mqttClient?.let { client -> ... }\<close>.\<close>

definition publishData ::
  "Throwable option \<Rightarrow> TelematicsData \<Rightarrow> DataCollectionService \<Rightarrow> DataCollectionService" where
  "publishData raised dat s =
     (case mqttClient s of
        None \<Rightarrow> s
      | Some client \<Rightarrow> s\<lparr> mqttClient := Some (publish raised dat client) \<rparr>)"

text \<open>
  \<^verbatim>\<open>private fun sendCombinedDataPacket()\<close>, the body of the timer task. \<open>now\<close> is the
  value of \<^verbatim>\<open>System.currentTimeMillis()\<close>. The function returns, besides the service
  after the call, the list of the \<^verbatim>\<open>TelematicsData\<close> values it has built.
\<close>

definition sendCombinedDataPacket ::
  "int \<Rightarrow> Throwable option \<Rightarrow> DataCollectionService
     \<Rightarrow> TelematicsData list \<times> DataCollectionService" where
  "sendCombinedDataPacket now raised s =
     (let (built, s2) =
        (if hasStateChanged s then
           let s1 = s\<lparr> lastPublishedState := liveSensorState s \<rparr>;
               lp = lastPublishedState s1;
               accMag = magnitude (LiveSensorState.accX lp) (LiveSensorState.accY lp)
                          (LiveSensorState.accZ lp);
               gyroMag = magnitude (LiveSensorState.gyroX lp) (LiveSensorState.gyroY lp)
                           (LiveSensorState.gyroZ lp);
               dat = \<lparr> TelematicsData.timestamp = now,
                       TelematicsData.tripId = DataCollectionService.tripId s1,
                       TelematicsData.label = currentLabel s1,
                       TelematicsData.accX = LiveSensorState.accX lp,
                       TelematicsData.accY = LiveSensorState.accY lp,
                       TelematicsData.accZ = LiveSensorState.accZ lp,
                       TelematicsData.accMag = accMag,
                       TelematicsData.gyroX = LiveSensorState.gyroX lp,
                       TelematicsData.gyroY = LiveSensorState.gyroY lp,
                       TelematicsData.gyroZ = LiveSensorState.gyroZ lp,
                       TelematicsData.gyroMag = gyroMag,
                       TelematicsData.rotVecX = LiveSensorState.rotVecX lp,
                       TelematicsData.rotVecY = LiveSensorState.rotVecY lp,
                       TelematicsData.rotVecZ = LiveSensorState.rotVecZ lp,
                       TelematicsData.rotVecW = LiveSensorState.rotVecW lp,
                       TelematicsData.latitude = LiveSensorState.latitude lp,
                       TelematicsData.longitude = LiveSensorState.longitude lp,
                       TelematicsData.speed = LiveSensorState.speed lp,
                       TelematicsData.altitude = LiveSensorState.altitude lp \<rparr>
           in ([dat], publishData raised dat s1)
         else ([], s));
          live = liveSensorState s2;
          liveAccMag = magnitude (LiveSensorState.accX live) (LiveSensorState.accY live)
                         (LiveSensorState.accZ live);
          liveGyroMag = magnitude (LiveSensorState.gyroX live) (LiveSensorState.gyroY live)
                          (LiveSensorState.gyroZ live);
          stats = \<lparr> RealTimeStats.accMag = liveAccMag,
                    RealTimeStats.gyroMag = liveGyroMag,
                    RealTimeStats.speed = LiveSensorState.speed live,
                    RealTimeStats.latitude = LiveSensorState.latitude live,
                    RealTimeStats.longitude = LiveSensorState.longitude live \<rparr>
      in (built, s2\<lparr> statsFlow := statsFlow s2 @ [stats] \<rparr>))"

text \<open>
  The assignments \<^verbatim>\<open>liveSensorState.f = event.values[i]\<close> of one branch, run in order
  from index \<open>i\<close>: each read of the array is bounds-checked, and a failed read throws after
  the earlier assignments have taken effect.
\<close>

fun storeAll ::
  "(real \<Rightarrow> LiveSensorState \<Rightarrow> LiveSensorState) list \<Rightarrow> nat \<Rightarrow> real list
     \<Rightarrow> LiveSensorState \<Rightarrow> exn option \<times> LiveSensorState" where
  "storeAll [] i vs live = (None, live)"
| "storeAll (assign # rest) i vs live =
     (if i < length vs then storeAll rest (Suc i) vs (assign (vs ! i) live)
      else (Some (ArrayIndexOutOfBoundsException i), live))"

text \<open>
  \<^verbatim>\<open>override fun onSensorChanged(event: SensorEvent?)\<close>. The result carries the
  exception that leaves the callback, if one does.
\<close>

definition onSensorChanged ::
  "SensorEvent option \<Rightarrow> DataCollectionService \<Rightarrow> exn option \<times> DataCollectionService" where
  "onSensorChanged event s =
     (case event of
        None \<Rightarrow> (None, s)
      | Some ev \<Rightarrow>
          let (thrown, live) =
            (case sensorType ev of
               TYPE_ACCELEROMETER \<Rightarrow>
                 storeAll [\<lambda>v l. l\<lparr> LiveSensorState.accX := v \<rparr>,
                           \<lambda>v l. l\<lparr> LiveSensorState.accY := v \<rparr>,
                           \<lambda>v l. l\<lparr> LiveSensorState.accZ := v \<rparr>]
                   0 (eventValues ev) (liveSensorState s)
             | TYPE_GYROSCOPE \<Rightarrow>
                 storeAll [\<lambda>v l. l\<lparr> LiveSensorState.gyroX := v \<rparr>,
                           \<lambda>v l. l\<lparr> LiveSensorState.gyroY := v \<rparr>,
                           \<lambda>v l. l\<lparr> LiveSensorState.gyroZ := v \<rparr>]
                   0 (eventValues ev) (liveSensorState s)
             | TYPE_ROTATION_VECTOR \<Rightarrow>
                 storeAll [\<lambda>v l. l\<lparr> LiveSensorState.rotVecX := v \<rparr>,
                           \<lambda>v l. l\<lparr> LiveSensorState.rotVecY := v \<rparr>,
                           \<lambda>v l. l\<lparr> LiveSensorState.rotVecZ := v \<rparr>,
                           \<lambda>v l. l\<lparr> LiveSensorState.rotVecW := v \<rparr>]
                   0 (eventValues ev) (liveSensorState s)
             | TYPE_OTHER \<Rightarrow> (None, liveSensorState s))
          in (thrown, s\<lparr> liveSensorState := live \<rparr>))"

text \<open>\<^verbatim>\<open>onLocationResult\<close> of the \<^verbatim>\<open>locationCallback\<close>; the argument is \<^verbatim>\<open>lastLocation\<close>.\<close>

definition onLocationResult ::
  "Location option \<Rightarrow> DataCollectionService \<Rightarrow> DataCollectionService" where
  "onLocationResult lastLocation s =
     (case lastLocation of
        None \<Rightarrow> s
      | Some location \<Rightarrow>
          s\<lparr> liveSensorState := (liveSensorState s)
               \<lparr> LiveSensorState.latitude := getLatitude location,
                 LiveSensorState.longitude := getLongitude location,
                 LiveSensorState.speed := getSpeed location,
                 LiveSensorState.altitude := getAltitude location \<rparr> \<rparr>)"

text \<open>
  The \<^verbatim>\<open>onSuccess\<close> lambda handed to \<^verbatim>\<open>connect\<close> and \<^verbatim>\<open>onDestroy\<close>, as far as they
  touch the modelled fields: the first reports the service as running, the second as
  stopped and releases the connection.
\<close>

definition connectSucceeded :: "DataCollectionService \<Rightarrow> DataCollectionService" where
  "connectSucceeded s = s\<lparr> isServiceRunningFlow := isServiceRunningFlow s @ [True] \<rparr>"

definition onDestroy :: "DataCollectionService \<Rightarrow> DataCollectionService" where
  "onDestroy s =
     s\<lparr> isServiceRunningFlow := isServiceRunningFlow s @ [False],
        mqttClient := map_option disconnect (mqttClient s) \<rparr>"

text \<open>
  A collecting session as a run of callbacks: sensor events, location results and timer
  ticks, each atomic. An exception that leaves a callback ends the run. The frames built
  by the ticks are collected in order.
\<close>

datatype event =
    SensorChanged "SensorEvent option"
  | LocationResult "Location option"
  | TimerTick int "Throwable option"

fun step ::
  "event \<Rightarrow> DataCollectionService \<Rightarrow> exn option \<times> TelematicsData list \<times> DataCollectionService" where
  "step (SensorChanged event) s = (let (thrown, s1) = onSensorChanged event s in (thrown, [], s1))"
| "step (LocationResult lastLocation) s = (None, [], onLocationResult lastLocation s)"
| "step (TimerTick now raised) s =
     (let (built, s1) = sendCombinedDataPacket now raised s in (None, built, s1))"

fun run ::
  "event list \<Rightarrow> DataCollectionService \<Rightarrow> exn option \<times> TelematicsData list \<times> DataCollectionService" where
  "run [] s = (None, [], s)"
| "run (e # es) s =
     (case step e s of
        (Some x, built, s1) \<Rightarrow> (Some x, built, s1)
      | (None, built, s1) \<Rightarrow>
          (case run es s1 of (thrown, built', s2) \<Rightarrow> (thrown, built @ built', s2)))"

section \<open>Hypotheses on runs\<close>

text \<open>
  Two readings of "the deltas stay within the threshold". The specification speaks of
  successive deltas, each reading against the one before. The gate measures each
  reading against the state last published: \<open>staysWithin lp e\<close> says that the event
  \<open>e\<close> is a timer tick, an empty callback, a reading of an unregistered sensor, or a
  complete reading whose gated components are within the thresholds of \<open>lp\<close>.
\<close>

fun successiveWithin :: "real \<Rightarrow> real list \<Rightarrow> bool" where
  "successiveWithin thr (x # y # rest) \<longleftrightarrow> \<bar>y - x\<bar> \<le> thr \<and> successiveWithin thr (y # rest)"
| "successiveWithin thr [x] \<longleftrightarrow> True"
| "successiveWithin thr [] \<longleftrightarrow> True"

fun staysWithin :: "LiveSensorState \<Rightarrow> event \<Rightarrow> bool" where
  "staysWithin lp (TimerTick now raised) \<longleftrightarrow> True"
| "staysWithin lp (LocationResult None) \<longleftrightarrow> True"
| "staysWithin lp (LocationResult (Some location)) \<longleftrightarrow>
     getLatitude location = LiveSensorState.latitude lp \<and>
     getLongitude location = LiveSensorState.longitude lp"
| "staysWithin lp (SensorChanged None) \<longleftrightarrow> True"
| "staysWithin lp (SensorChanged (Some ev)) \<longleftrightarrow>
     (case sensorType ev of
        TYPE_ACCELEROMETER \<Rightarrow>
          3 \<le> length (eventValues ev) \<and>
          \<bar>eventValues ev ! 0 - LiveSensorState.accX lp\<bar> \<le> 0.5 \<and>
          \<bar>eventValues ev ! 1 - LiveSensorState.accY lp\<bar> \<le> 0.5 \<and>
          \<bar>eventValues ev ! 2 - LiveSensorState.accZ lp\<bar> \<le> 0.5
      | TYPE_GYROSCOPE \<Rightarrow>
          3 \<le> length (eventValues ev) \<and>
          \<bar>eventValues ev ! 0 - LiveSensorState.gyroX lp\<bar> \<le> 0.3 \<and>
          \<bar>eventValues ev ! 1 - LiveSensorState.gyroY lp\<bar> \<le> 0.3 \<and>
          \<bar>eventValues ev ! 2 - LiveSensorState.gyroZ lp\<bar> \<le> 0.3
      | TYPE_ROTATION_VECTOR \<Rightarrow>
          4 \<le> length (eventValues ev) \<and>
          \<bar>eventValues ev ! 0 - LiveSensorState.rotVecX lp\<bar> \<le> 0.05 \<and>
          \<bar>eventValues ev ! 1 - LiveSensorState.rotVecY lp\<bar> \<le> 0.05 \<and>
          \<bar>eventValues ev ! 2 - LiveSensorState.rotVecZ lp\<bar> \<le> 0.05
      | TYPE_OTHER \<Rightarrow> True)"

text \<open>
  Counting on transport runs: the invocations of the ready callback in a list of
  callback invocations, and the connections completed in a list of client events.
\<close>

definition readyCount :: "callback list \<Rightarrow> nat" where
  "readyCount cbs = length (filter (\<lambda>cb. cb = OnSuccess) cbs)"

fun completions :: "pahoEvent list \<Rightarrow> nat" where
  "completions [] = 0"
| "completions (ConnectComplete reconnect # evs) = Suc (completions evs)"
| "completions (ev # evs) = completions evs"

section \<open>Accuracy of the magnitude\<close>

text \<open>
  \<open>upTo u m v t\<close> says that \<open>v\<close> is \<open>t\<close> up to \<open>m\<close> roundings of relative error \<open>u\<close>.
  \<open>inFloatRange x y z\<close> keeps the computation of \<open>magnitude x y z\<close> away from
  underflow and overflow: every component is zero or at least \<open>2 ^ -60\<close> in absolute
  value, and the sum of the squares is at most \<open>2 ^ 126\<close>, so that every intermediate
  result is zero or a normal finite \<^verbatim>\<open>Float\<close>.
\<close>

definition upTo :: "real \<Rightarrow> nat \<Rightarrow> real \<Rightarrow> real \<Rightarrow> bool" where
  "upTo u m v t \<longleftrightarrow> (1 - u) ^ m * t \<le> v \<and> v \<le> (1 + u) ^ m * t"

definition inFloatRange :: "real \<Rightarrow> real \<Rightarrow> real \<Rightarrow> bool" where
  "inFloatRange x y z \<longleftrightarrow>
     (x = 0 \<or> 1 / 2 ^ 60 \<le> \<bar>x\<bar>) \<and> (y = 0 \<or> 1 / 2 ^ 60 \<le> \<bar>y\<bar>) \<and>
     (z = 0 \<or> 1 / 2 ^ 60 \<le> \<bar>z\<bar>) \<and> x * x + y * y + z * z \<le> 2 ^ 126"

section \<open>The change gate\<close>

lemmas thresholds = ACCEL_THRESHOLD_def GYRO_THRESHOLD_def ROT_VEC_THRESHOLD_def

lemma hasStateChanged_iff:
  "hasStateChanged s \<longleftrightarrow> shouldPublish (liveSensorState s) (lastPublishedState s)"
  by (simp add: hasStateChanged_def shouldPublish_def accelExceeds_def gyroExceeds_def
      rotVecExceeds_def positionDiffers_def thresholds Let_def abs_minus_commute)

lemmas gate_unfold = hasStateChanged_iff shouldPublish_def accelExceeds_def gyroExceeds_def
  rotVecExceeds_def positionDiffers_def



section \<open>The timer task\<close>

lemma publishData_fields [simp]:
  "liveSensorState (publishData r d s) = liveSensorState s"
  "lastPublishedState (publishData r d s) = lastPublishedState s"
  "statsFlow (publishData r d s) = statsFlow s"
  "isServiceRunningFlow (publishData r d s) = isServiceRunningFlow s"
  "currentLabel (publishData r d s) = currentLabel s"
  "DataCollectionService.tripId (publishData r d s) = DataCollectionService.tripId s"
  "mqttClient (publishData r d s) = map_option (publish r d) (mqttClient s)"
  by (simp_all add: publishData_def split: option.splits)

lemma tick_lastPublished:
  "lastPublishedState (snd (sendCombinedDataPacket now r s)) =
     (if hasStateChanged s then liveSensorState s else lastPublishedState s)"
  by (simp add: sendCombinedDataPacket_def Let_def)

lemma tick_live:
  "liveSensorState (snd (sendCombinedDataPacket now r s)) = liveSensorState s"
  by (simp add: sendCombinedDataPacket_def Let_def)

lemma tick_quiet:
  "\<not> hasStateChanged s \<Longrightarrow> fst (sendCombinedDataPacket now r s) = []"
  by (simp add: sendCombinedDataPacket_def Let_def)

text \<open>
  C2. A call of the timer task whose gate is true builds exactly one frame, stamped
  with the time of the call, the trip id and the current label; every motion and
  position field of the frame is the field of the live state at the call; the frame
  is handed to the transport once; and \<open>lastPublishedState\<close> becomes that live state.
  A call whose gate is false builds no frame and leaves \<open>lastPublishedState\<close> and the
  transport as they were.
\<close>

theorem tick_builds_one_frame_iff_gate:
  assumes "sendCombinedDataPacket now raised s = (built, s')"
  shows "(hasStateChanged s \<longrightarrow>
            (\<exists>f. built = [f] \<and>
               TelematicsData.timestamp f = now \<and>
               TelematicsData.tripId f = DataCollectionService.tripId s \<and>
               TelematicsData.label f = currentLabel s \<and>
               TelematicsData.accX f = LiveSensorState.accX (liveSensorState s) \<and>
               TelematicsData.accY f = LiveSensorState.accY (liveSensorState s) \<and>
               TelematicsData.accZ f = LiveSensorState.accZ (liveSensorState s) \<and>
               TelematicsData.gyroX f = LiveSensorState.gyroX (liveSensorState s) \<and>
               TelematicsData.gyroY f = LiveSensorState.gyroY (liveSensorState s) \<and>
               TelematicsData.gyroZ f = LiveSensorState.gyroZ (liveSensorState s) \<and>
               TelematicsData.rotVecX f = LiveSensorState.rotVecX (liveSensorState s) \<and>
               TelematicsData.rotVecY f = LiveSensorState.rotVecY (liveSensorState s) \<and>
               TelematicsData.rotVecZ f = LiveSensorState.rotVecZ (liveSensorState s) \<and>
               TelematicsData.rotVecW f = LiveSensorState.rotVecW (liveSensorState s) \<and>
               TelematicsData.latitude f = LiveSensorState.latitude (liveSensorState s) \<and>
               TelematicsData.longitude f = LiveSensorState.longitude (liveSensorState s) \<and>
               TelematicsData.speed f = LiveSensorState.speed (liveSensorState s) \<and>
               TelematicsData.altitude f = LiveSensorState.altitude (liveSensorState s) \<and>
               mqttClient s' = map_option (publish raised f) (mqttClient s)) \<and>
            lastPublishedState s' = liveSensorState s) \<and>
         (\<not> hasStateChanged s \<longrightarrow>
            built = [] \<and> lastPublishedState s' = lastPublishedState s \<and>
            mqttClient s' = mqttClient s)"
proof (cases "hasStateChanged s")
  case True
  with assms show ?thesis
    by (auto simp add: sendCombinedDataPacket_def Let_def)
next
  case False
  with assms show ?thesis
    by (auto simp add: sendCombinedDataPacket_def Let_def)
qed

theorem tick_builds_one_frame_iff_gate_witness:
  "hasStateChanged ((DataCollectionService_new ''t'')
       \<lparr> liveSensorState := LiveSensorState_default \<lparr> LiveSensorState.accZ := 10 \<rparr> \<rparr>) \<and>
   length (fst (sendCombinedDataPacket 7 None ((DataCollectionService_new ''t'')
       \<lparr> liveSensorState := LiveSensorState_default \<lparr> LiveSensorState.accZ := 10 \<rparr> \<rparr>))) = 1 \<and>
   lastPublishedState (snd (sendCombinedDataPacket 7 None ((DataCollectionService_new ''t'')
       \<lparr> liveSensorState := LiveSensorState_default \<lparr> LiveSensorState.accZ := 10 \<rparr> \<rparr>)))
     = LiveSensorState_default \<lparr> LiveSensorState.accZ := 10 \<rparr>"
  using tick_builds_one_frame_iff_gate
    [of 7 None "(DataCollectionService_new ''t'')
       \<lparr> liveSensorState := LiveSensorState_default \<lparr> LiveSensorState.accZ := 10 \<rparr> \<rparr>"
      "fst (sendCombinedDataPacket 7 None ((DataCollectionService_new ''t'')
       \<lparr> liveSensorState := LiveSensorState_default \<lparr> LiveSensorState.accZ := 10 \<rparr> \<rparr>))"
      "snd (sendCombinedDataPacket 7 None ((DataCollectionService_new ''t'')
       \<lparr> liveSensorState := LiveSensorState_default \<lparr> LiveSensorState.accZ := 10 \<rparr> \<rparr>))"]
  by (auto simp add: hasStateChanged_def DataCollectionService_new_def
      LiveSensorState_default_def thresholds)

section \<open>The first tick of a session\<close>




section \<open>Rounding to binary32\<close>

lemma roundTiesToEven_error: "\<bar>of_int (roundTiesToEven y) - y\<bar> \<le> 1 / 2"
proof -
  have "of_int \<lfloor>y\<rfloor> \<le> y" "y < of_int \<lfloor>y\<rfloor> + 1" by linarith+
  then show ?thesis
    by (auto simp add: roundTiesToEven_def Let_def)
qed

lemma roundTiesToEven_eval:
  assumes "of_int n - 1 / 2 < y" and "y < of_int n + 1 / 2"
  shows "roundTiesToEven y = n"
proof (cases "of_int n \<le> y")
  case True
  with assms have "\<lfloor>y\<rfloor> = n" by linarith
  with assms show ?thesis by (simp add: roundTiesToEven_def Let_def)
next
  case False
  with assms have f: "\<lfloor>y\<rfloor> = n - 1" by linarith
  with assms have "1 / 2 < y - of_int (n - 1)" by simp
  with f show ?thesis by (simp add: roundTiesToEven_def Let_def)
qed

lemma float32_zero [simp]: "float32 0 = 0"
  by (simp add: float32_def)

lemma float32_eval:
  assumes "0 < x" and "2 powr of_int e \<le> x" and "x < 2 powr (of_int e + 1)"
      and "- 126 \<le> e"
      and "of_int n - 1 / 2 < x / 2 powr (of_int e - 23)"
      and "x / 2 powr (of_int e - 23) < of_int n + 1 / 2"
  shows "float32 x = 2 powr (of_int e - 23) * of_int n"
proof -
  have "\<lfloor>log 2 x\<rfloor> = e"
    using assms(1-3) by (simp add: floor_log_eq_powr_iff)
  with assms(1,4) have "max \<lfloor>log 2 \<bar>x\<bar>\<rfloor> (- 126) = e" by simp
  moreover have "roundTiesToEven (x / 2 powr (of_int e - 23)) = n"
    using assms(5,6) by (rule roundTiesToEven_eval)
  ultimately show ?thesis using assms(1) by (simp add: float32_def Let_def)
qed

lemma float32_accurate:
  assumes "2 powr (- 126) \<le> \<bar>x\<bar>"
  shows "\<bar>float32 x - x\<bar> \<le> \<bar>x\<bar> / 2 ^ 24"
proof -
  have pos: "0 < \<bar>x\<bar>" using assms powr_gt_zero [of 2 "- 126"] by linarith
  then have nz: "x \<noteq> 0" by simp
  define e where "e = \<lfloor>log 2 \<bar>x\<bar>\<rfloor>"
  define q :: real where "q = 2 powr (of_int e - 23)"
  have "- 126 \<le> log 2 \<bar>x\<bar>"
    using assms pos by (simp add: le_log_iff)
  then have e126: "- 126 \<le> e" unfolding e_def by (simp add: le_floor_iff)
  have "of_int e \<le> log 2 \<bar>x\<bar>" unfolding e_def by simp
  then have lo: "2 powr of_int e \<le> \<bar>x\<bar>"
    using pos by (simp add: le_log_iff)
  have q0: "0 < q" by (simp add: q_def)
  have qe: "q * 2 ^ 23 = 2 powr of_int e"
    by (simp add: q_def powr_diff)
  have fl: "float32 x = q * of_int (roundTiesToEven (x / q))"
    using nz e126 by (simp add: float32_def Let_def e_def [symmetric] q_def max_def)
  have "\<bar>float32 x - x\<bar> = q * \<bar>of_int (roundTiesToEven (x / q)) - x / q\<bar>"
  proof -
    have "float32 x - x = q * (of_int (roundTiesToEven (x / q)) - x / q)"
      using q0 by (simp add: fl algebra_simps)
    then show ?thesis using q0 by (simp add: abs_mult)
  qed
  also have "\<dots> \<le> q * (1 / 2)"
    using q0 roundTiesToEven_error [of "x / q"] by (intro mult_left_mono) simp_all
  also have "\<dots> = (q * 2 ^ 23) / 2 ^ 24" by simp
  also have "\<dots> \<le> \<bar>x\<bar> / 2 ^ 24"
    unfolding qe using lo by (intro divide_right_mono) simp_all
  finally show ?thesis .
qed

lemma magnitude_zero [simp]: "magnitude 0 0 0 = 0"
  by (simp add: magnitude_def)

section \<open>The ingestors\<close>

lemma storeAll3:
  "3 \<le> length vs \<Longrightarrow>
   storeAll [f0, f1, f2] 0 vs l = (None, f2 (vs ! 2) (f1 (vs ! 1) (f0 (vs ! 0) l)))"
  by (auto simp add: numeral_2_eq_2)

lemma storeAll4:
  "4 \<le> length vs \<Longrightarrow>
   storeAll [f0, f1, f2, f3] 0 vs l
     = (None, f3 (vs ! 3) (f2 (vs ! 2) (f1 (vs ! 1) (f0 (vs ! 0) l))))"
  by (auto simp add: numeral_2_eq_2 numeral_3_eq_3)

lemma onSensorChanged_accelerometer:
  "sensorType ev = TYPE_ACCELEROMETER \<Longrightarrow> 3 \<le> length (eventValues ev) \<Longrightarrow>
   onSensorChanged (Some ev) s =
     (None, s\<lparr> liveSensorState := (liveSensorState s)
              \<lparr> LiveSensorState.accX := eventValues ev ! 0,
                LiveSensorState.accY := eventValues ev ! 1,
                LiveSensorState.accZ := eventValues ev ! 2 \<rparr> \<rparr>)"
  by (simp add: onSensorChanged_def storeAll3 del: storeAll.simps)

lemma onSensorChanged_gyroscope:
  "sensorType ev = TYPE_GYROSCOPE \<Longrightarrow> 3 \<le> length (eventValues ev) \<Longrightarrow>
   onSensorChanged (Some ev) s =
     (None, s\<lparr> liveSensorState := (liveSensorState s)
              \<lparr> LiveSensorState.gyroX := eventValues ev ! 0,
                LiveSensorState.gyroY := eventValues ev ! 1,
                LiveSensorState.gyroZ := eventValues ev ! 2 \<rparr> \<rparr>)"
  by (simp add: onSensorChanged_def storeAll3 del: storeAll.simps)

lemma onSensorChanged_rotation_vector:
  "sensorType ev = TYPE_ROTATION_VECTOR \<Longrightarrow> 4 \<le> length (eventValues ev) \<Longrightarrow>
   onSensorChanged (Some ev) s =
     (None, s\<lparr> liveSensorState := (liveSensorState s)
              \<lparr> LiveSensorState.rotVecX := eventValues ev ! 0,
                LiveSensorState.rotVecY := eventValues ev ! 1,
                LiveSensorState.rotVecZ := eventValues ev ! 2,
                LiveSensorState.rotVecW := eventValues ev ! 3 \<rparr> \<rparr>)"
  by (simp add: onSensorChanged_def storeAll4 del: storeAll.simps)

lemma onSensorChanged_other:
  "sensorType ev = TYPE_OTHER \<Longrightarrow> onSensorChanged (Some ev) s = (None, s)"
  by (simp add: onSensorChanged_def)

text \<open>
  C6, as stated, fails: an accelerometer event with two components overwrites \<open>accX\<close>
  and \<open>accY\<close>, leaves \<open>accZ\<close> as it was, and the read of \<^verbatim>\<open>values[2]\<close> throws.
\<close>

theorem short_reading_crashes_counterexample:
  "onSensorChanged (Some \<lparr> sensorType = TYPE_ACCELEROMETER, eventValues = [1, 2] \<rparr>)
     (DataCollectionService_new ''t'')
   = (Some (ArrayIndexOutOfBoundsException 2),
      (DataCollectionService_new ''t'')
        \<lparr> liveSensorState := LiveSensorState_default
             \<lparr> LiveSensorState.accX := 1, LiveSensorState.accY := 2 \<rparr> \<rparr>)"
  by (simp add: onSensorChanged_def DataCollectionService_new_def LiveSensorState_default_def)

text \<open>
  C6, amended. A null event is discarded: the service is unchanged and nothing is
  thrown. An event whose array has at least the components its channel reads (three for
  the accelerometer and the gyroscope, four for the rotation vector) updates exactly the
  fields of its channel, all of them, and throws nothing. An event of any other sensor
  changes nothing.
\<close>

theorem complete_reading_applied_whole:
  "onSensorChanged None s = (None, s) \<and>
   (sensorType ev = TYPE_ACCELEROMETER \<and> eventValues ev = x # y # z # rest \<longrightarrow>
      onSensorChanged (Some ev) s =
        (None, s\<lparr> liveSensorState := (liveSensorState s)
                 \<lparr> LiveSensorState.accX := x, LiveSensorState.accY := y,
                   LiveSensorState.accZ := z \<rparr> \<rparr>)) \<and>
   (sensorType ev = TYPE_GYROSCOPE \<and> eventValues ev = x # y # z # rest \<longrightarrow>
      onSensorChanged (Some ev) s =
        (None, s\<lparr> liveSensorState := (liveSensorState s)
                 \<lparr> LiveSensorState.gyroX := x, LiveSensorState.gyroY := y,
                   LiveSensorState.gyroZ := z \<rparr> \<rparr>)) \<and>
   (sensorType ev = TYPE_ROTATION_VECTOR \<and> eventValues ev = x # y # z # w # rest \<longrightarrow>
      onSensorChanged (Some ev) s =
        (None, s\<lparr> liveSensorState := (liveSensorState s)
                 \<lparr> LiveSensorState.rotVecX := x, LiveSensorState.rotVecY := y,
                   LiveSensorState.rotVecZ := z, LiveSensorState.rotVecW := w \<rparr> \<rparr>)) \<and>
   (sensorType ev = TYPE_OTHER \<longrightarrow> onSensorChanged (Some ev) s = (None, s))"
  by (simp add: onSensorChanged_def)

theorem complete_reading_applied_whole_witness:
  "onSensorChanged
     (Some \<lparr> sensorType = TYPE_ROTATION_VECTOR, eventValues = [0.1, 0.2, 0.3, 0.9, 0.01] \<rparr>)
     (DataCollectionService_new ''t'')
   = (None, (DataCollectionService_new ''t'')
        \<lparr> liveSensorState := LiveSensorState_default
             \<lparr> LiveSensorState.rotVecX := 0.1, LiveSensorState.rotVecY := 0.2,
               LiveSensorState.rotVecZ := 0.3, LiveSensorState.rotVecW := 0.9 \<rparr> \<rparr>)"
  using complete_reading_applied_whole
    [where s = "DataCollectionService_new ''t''"
       and ev = "\<lparr> sensorType = TYPE_ROTATION_VECTOR, eventValues = [0.1, 0.2, 0.3, 0.9, 0.01] \<rparr>"
       and x = "0.1" and y = "0.2" and z = "0.3" and w = "0.9" and rest = "[0.01]"]
  by (simp add: DataCollectionService_new_def)

text \<open>
  C5, as stated, fails: a complete accelerometer reading changes the live state and
  nothing is emitted on the stats flow.
\<close>

theorem reading_emits_nothing_counterexample:
  "liveSensorState (snd (onSensorChanged
      (Some \<lparr> sensorType = TYPE_ACCELEROMETER, eventValues = [1, 2, 3] \<rparr>)
      (DataCollectionService_new ''t'')))
     \<noteq> liveSensorState (DataCollectionService_new ''t'') \<and>
   statsFlow (snd (onSensorChanged
      (Some \<lparr> sensorType = TYPE_ACCELEROMETER, eventValues = [1, 2, 3] \<rparr>)
      (DataCollectionService_new ''t''))) = []"
  by (simp add: onSensorChanged_def DataCollectionService_new_def LiveSensorState_default_def)

lemma onSensorChanged_statsFlow:
  "statsFlow (snd (onSensorChanged event s)) = statsFlow s"
  by (simp add: onSensorChanged_def split_beta split: option.splits)

lemma onLocationResult_statsFlow:
  "statsFlow (onLocationResult lastLocation s) = statsFlow s"
  by (simp add: onLocationResult_def split: option.splits)

text \<open>
  C5, amended. The ingestors emit nothing. Every call of the timer task, whether its
  gate passes or not, emits exactly one \<^verbatim>\<open>RealTimeStats\<close> value computed from the live
  state at the call: the two magnitudes, the speed, the latitude and the longitude.
\<close>

theorem stats_emitted_once_per_tick:
  "statsFlow (snd (onSensorChanged event s)) = statsFlow s \<and>
   statsFlow (onLocationResult lastLocation s) = statsFlow s \<and>
   statsFlow (snd (sendCombinedDataPacket now raised s)) =
     statsFlow s @
       [\<lparr> RealTimeStats.accMag =
             magnitude (LiveSensorState.accX (liveSensorState s))
               (LiveSensorState.accY (liveSensorState s))
               (LiveSensorState.accZ (liveSensorState s)),
           RealTimeStats.gyroMag =
             magnitude (LiveSensorState.gyroX (liveSensorState s))
               (LiveSensorState.gyroY (liveSensorState s))
               (LiveSensorState.gyroZ (liveSensorState s)),
           RealTimeStats.speed = LiveSensorState.speed (liveSensorState s),
           RealTimeStats.latitude = LiveSensorState.latitude (liveSensorState s),
           RealTimeStats.longitude = LiveSensorState.longitude (liveSensorState s) \<rparr>]"
  by (simp add: onSensorChanged_statsFlow onLocationResult_statsFlow
      sendCombinedDataPacket_def Let_def)

theorem stats_emitted_once_per_tick_witness:
  "statsFlow (snd (sendCombinedDataPacket 0 None (DataCollectionService_new ''t'')))
     = [\<lparr> RealTimeStats.accMag = 0, RealTimeStats.gyroMag = 0, RealTimeStats.speed = 0,
          RealTimeStats.latitude = 0, RealTimeStats.longitude = 0 \<rparr>] \<and>
   fst (sendCombinedDataPacket 0 None (DataCollectionService_new ''t'')) = [] \<and>
   statsFlow (snd (onSensorChanged
      (Some \<lparr> sensorType = TYPE_GYROSCOPE, eventValues = [1, 2, 3] \<rparr>)
      (DataCollectionService_new ''t''))) = []"
  using stats_emitted_once_per_tick
    [of "Some \<lparr> sensorType = TYPE_GYROSCOPE, eventValues = [1, 2, 3] \<rparr>"
        "DataCollectionService_new ''t''" None 0 None]
  by (simp add: DataCollectionService_new_def LiveSensorState_default_def
      sendCombinedDataPacket_def hasStateChanged_def thresholds Let_def)

section \<open>Runs that stay near the last published state\<close>

lemma hasStateChanged_after_tick:
  "\<not> hasStateChanged (snd (sendCombinedDataPacket now r s))"
proof -
  let ?s' = "snd (sendCombinedDataPacket now r s)"
  show ?thesis
  proof (cases "hasStateChanged s")
    case True
    then have "lastPublishedState ?s' = liveSensorState ?s'"
      by (simp add: tick_lastPublished tick_live)
    then show ?thesis
      by (simp add: gate_unfold)
  next
    case False
    then have "lastPublishedState ?s' = lastPublishedState s" "liveSensorState ?s' = liveSensorState s"
      by (simp_all add: tick_lastPublished tick_live)
    with False show ?thesis
      by (simp add: hasStateChanged_iff)
  qed
qed

lemma step_staysWithin:
  assumes "\<not> hasStateChanged s" and "staysWithin (lastPublishedState s) e"
  shows "\<exists>s1. step e s = (None, [], s1) \<and> \<not> hasStateChanged s1 \<and>
              lastPublishedState s1 = lastPublishedState s"
proof (cases e)
  case (TimerTick now raised)
  obtain built s1 where t: "sendCombinedDataPacket now raised s = (built, s1)"
    by (cases "sendCombinedDataPacket now raised s")
  have "built = []" using tick_quiet [OF assms(1), of now raised] t by simp
  moreover have "\<not> hasStateChanged s1"
    using hasStateChanged_after_tick [of now raised s] t by simp
  moreover have "lastPublishedState s1 = lastPublishedState s"
    using tick_lastPublished [of now raised s] t assms(1) by simp
  ultimately show ?thesis using TimerTick t by simp
next
  case (LocationResult lastLocation)
  show ?thesis
  proof (cases lastLocation)
    case None
    with LocationResult assms show ?thesis by (simp add: onLocationResult_def)
  next
    case (Some location)
    with LocationResult assms show ?thesis
      by (simp add: onLocationResult_def gate_unfold)
  qed
next
  case (SensorChanged event)
  show ?thesis
  proof (cases event)
    case None
    with SensorChanged assms show ?thesis by (simp add: onSensorChanged_def)
  next
    case (Some ev)
    show ?thesis
    proof (cases "sensorType ev")
      case TYPE_ACCELEROMETER
      with SensorChanged Some assms show ?thesis
        by (simp add: onSensorChanged_accelerometer gate_unfold)
    next
      case TYPE_GYROSCOPE
      with SensorChanged Some assms show ?thesis
        by (simp add: onSensorChanged_gyroscope gate_unfold)
    next
      case TYPE_ROTATION_VECTOR
      with SensorChanged Some assms show ?thesis
        by (simp add: onSensorChanged_rotation_vector gate_unfold)
    next
      case TYPE_OTHER
      with SensorChanged Some assms show ?thesis
        by (simp add: onSensorChanged_other)
    qed
  qed
qed

lemma run_staysWithin:
  assumes "\<not> hasStateChanged s" and "list_all (staysWithin (lastPublishedState s)) es"
  shows "\<exists>s'. run es s = (None, [], s') \<and> \<not> hasStateChanged s' \<and>
              lastPublishedState s' = lastPublishedState s"
  using assms
proof (induction es arbitrary: s)
  case Nil
  then show ?case by simp
next
  case (Cons e es)
  from Cons.prems obtain s1 where
    s1: "step e s = (None, [], s1)" "\<not> hasStateChanged s1"
        "lastPublishedState s1 = lastPublishedState s"
    using step_staysWithin [of s e] by auto
  from Cons.prems s1 have "list_all (staysWithin (lastPublishedState s1)) es" by simp
  with Cons.IH [OF s1(2)] obtain s' where
    "run es s1 = (None, [], s')" "\<not> hasStateChanged s'"
    "lastPublishedState s' = lastPublishedState s1"
    by blast
  with s1 show ?case by simp
qed

text \<open>
  C4, as stated, fails: the accelerometer drifts from 1 to 1.4 to 1.8 on the x axis,
  each step within 0.5 of the one before, and the tick after the last reading builds a
  second frame, because 1.8 is 0.8 away from the 1 that the first tick published.
\<close>

theorem slow_drift_publishes_again_counterexample:
  "successiveWithin ACCEL_THRESHOLD [1, 1.4, 1.8] \<and>
   successiveWithin ACCEL_THRESHOLD [0, 0, 0] \<and>
   map TelematicsData.timestamp
     (fst (snd (run
        [SensorChanged (Some \<lparr> sensorType = TYPE_ACCELEROMETER, eventValues = [1, 0, 0] \<rparr>),
         TimerTick 0 None,
         SensorChanged (Some \<lparr> sensorType = TYPE_ACCELEROMETER, eventValues = [1.4, 0, 0] \<rparr>),
         TimerTick 100 None,
         SensorChanged (Some \<lparr> sensorType = TYPE_ACCELEROMETER, eventValues = [1.8, 0, 0] \<rparr>),
         TimerTick 200 None]
        (DataCollectionService_new ''t''))))
     = [0, 200]"
  by (simp add: DataCollectionService_new_def LiveSensorState_default_def
      onSensorChanged_def sendCombinedDataPacket_def hasStateChanged_def thresholds
      publishData_def Let_def)

text \<open>
  C4, amended. After a tick, as long as every reading stays within its channel's
  threshold of the state last published (position: equal to it), whatever the channel
  and however the readings and ticks interleave, no callback throws, no further frame
  is built and \<open>lastPublishedState\<close> stays as it is.
\<close>

theorem quiet_while_within_threshold_of_last_published:
  assumes "sendCombinedDataPacket now raised s0 = (built0, s1)"
      and "list_all (staysWithin (lastPublishedState s1)) es"
  shows "\<exists>s'. run es s1 = (None, [], s') \<and> lastPublishedState s' = lastPublishedState s1"
proof -
  have "\<not> hasStateChanged s1"
    using hasStateChanged_after_tick [of now raised s0] assms(1) by simp
  from run_staysWithin [OF this assms(2)] show ?thesis by blast
qed

theorem quiet_while_within_threshold_of_last_published_witness:
  "list_all (staysWithin (lastPublishedState (snd (sendCombinedDataPacket 0 None
       ((DataCollectionService_new ''t'')
          \<lparr> liveSensorState := LiveSensorState_default \<lparr> LiveSensorState.accX := 1 \<rparr> \<rparr>)))))
     [SensorChanged (Some \<lparr> sensorType = TYPE_ACCELEROMETER, eventValues = [1.4, 0, 0] \<rparr>),
      TimerTick 100 None,
      SensorChanged (Some \<lparr> sensorType = TYPE_ACCELEROMETER, eventValues = [0.6, 0, 0] \<rparr>),
      TimerTick 200 None] \<and>
   fst (snd (run
     [SensorChanged (Some \<lparr> sensorType = TYPE_ACCELEROMETER, eventValues = [1.4, 0, 0] \<rparr>),
      TimerTick 100 None,
      SensorChanged (Some \<lparr> sensorType = TYPE_ACCELEROMETER, eventValues = [0.6, 0, 0] \<rparr>),
      TimerTick 200 None]
     (snd (sendCombinedDataPacket 0 None
       ((DataCollectionService_new ''t'')
          \<lparr> liveSensorState := LiveSensorState_default \<lparr> LiveSensorState.accX := 1 \<rparr> \<rparr>))))) = []"
proof -
  let ?s0 = "(DataCollectionService_new ''t'')
          \<lparr> liveSensorState := LiveSensorState_default \<lparr> LiveSensorState.accX := 1 \<rparr> \<rparr>"
  let ?es = "[SensorChanged (Some \<lparr> sensorType = TYPE_ACCELEROMETER, eventValues = [1.4, 0, 0] \<rparr>),
      TimerTick 100 None,
      SensorChanged (Some \<lparr> sensorType = TYPE_ACCELEROMETER, eventValues = [0.6, 0, 0] \<rparr>),
      TimerTick 200 None]"
  have lp: "lastPublishedState (snd (sendCombinedDataPacket 0 None ?s0))
              = LiveSensorState_default \<lparr> LiveSensorState.accX := 1 \<rparr>"
    by (simp add: tick_lastPublished hasStateChanged_def thresholds
        DataCollectionService_new_def LiveSensorState_default_def)
  have h: "list_all (staysWithin (lastPublishedState (snd (sendCombinedDataPacket 0 None ?s0)))) ?es"
    unfolding lp by (simp add: LiveSensorState_default_def)
  from quiet_while_within_threshold_of_last_published
         [of 0 None ?s0 "fst (sendCombinedDataPacket 0 None ?s0)"
             "snd (sendCombinedDataPacket 0 None ?s0)" ?es, OF _ h]
  have "\<exists>s'. run ?es (snd (sendCombinedDataPacket 0 None ?s0)) = (None, [], s')
          \<and> lastPublishedState s' = lastPublishedState (snd (sendCombinedDataPacket 0 None ?s0))"
    by simp
  then have "fst (snd (run ?es (snd (sendCombinedDataPacket 0 None ?s0)))) = []"
    by auto
  with h show ?thesis by blast
qed

section \<open>Connection lifecycle\<close>

lemma paho_callbackInstalled [simp]:
  "callbackInstalled (snd (paho ev c)) = callbackInstalled c"
  by (cases ev) (simp_all add: connectComplete_def connectionLost_def actionOnSuccess_def
      actionOnFailure_def logLine_def Let_def)

lemma paho_readyCount:
  "callbackInstalled c \<Longrightarrow> readyCount (fst (paho ev c)) = completions [ev]"
  by (cases ev) (simp_all add: readyCount_def connectComplete_def connectionLost_def
      actionOnSuccess_def actionOnFailure_def Let_def)

lemma readyCount_append [simp]: "readyCount (xs @ ys) = readyCount xs + readyCount ys"
  by (simp add: readyCount_def)

lemma completions_Cons: "completions (ev # evs) = completions [ev] + completions evs"
  by (cases ev) simp_all

lemma transportRun_paho_readyCount:
  "callbackInstalled c \<Longrightarrow>
     readyCount (fst (transportRun (map Paho evs) c)) = completions evs"
proof (induction evs arbitrary: c)
  case Nil
  then show ?case by (simp add: readyCount_def)
next
  case (Cons ev evs)
  obtain cbs c1 where p: "paho ev c = (cbs, c1)" by (cases "paho ev c")
  with Cons.prems have c1: "callbackInstalled c1"
    using paho_callbackInstalled [of ev c] by simp
  obtain cbs' c2 where r: "transportRun (map Paho evs) c1 = (cbs', c2)"
    by (cases "transportRun (map Paho evs) c1")
  have "readyCount cbs = completions [ev]"
    using paho_readyCount [OF Cons.prems, of ev] p by simp
  moreover have "readyCount cbs' = completions evs"
    using Cons.IH [OF c1] r by simp
  ultimately show ?case
    using p r by (simp add: completions_Cons [of ev evs])
qed

text \<open>
  C7, as stated, fails: after one call of \<open>connect\<close> and one request to the client, the
  first completed connection and the automatic reconnect after a loss each invoke the
  ready callback.
\<close>

theorem ready_again_on_reconnect_counterexample:
  "readyCount (fst (transportRun
      [Connect None, Paho (ConnectComplete False), Paho (ConnectionLost ''timeout''),
       Paho (ConnectComplete True)] MqttClient_new)) = 2 \<and>
   connectRequests (snd (transportRun
      [Connect None, Paho (ConnectComplete False), Paho (ConnectionLost ''timeout''),
       Paho (ConnectComplete True)] MqttClient_new)) = 1"
  by (simp add: readyCount_def connect_def MqttClient_new_def connectComplete_def
      connectionLost_def logLine_def)

text \<open>
  C7, amended. Called on a connected client, \<open>connect\<close> invokes the ready callback once,
  at once, and changes nothing: no second connection is requested. Called on a client
  that is down, it invokes nothing itself; afterwards the ready callback runs once for
  every connection the client completes, the first one and every automatic reconnect
  alike.
\<close>

theorem ready_once_per_completed_connection:
  "(isConnected c \<longrightarrow> connect raised c = ([OnSuccess], c)) \<and>
   (\<not> isConnected c \<longrightarrow>
      fst (connect None c) = [] \<and>
      readyCount (fst (transportRun (Connect None # map Paho evs) c)) = completions evs)"
proof (intro conjI impI)
  assume "isConnected c"
  then show "connect raised c = ([OnSuccess], c)" by (simp add: connect_def)
next
  assume "\<not> isConnected c"
  then show "fst (connect None c) = []" by (simp add: connect_def)
next
  assume down: "\<not> isConnected c"
  let ?c1 = "c\<lparr> callbackInstalled := True, connectRequests := connectRequests c + 1 \<rparr>"
  from down have step: "connect None c = ([], ?c1)" by (simp add: connect_def)
  have "readyCount (fst (transportRun (map Paho evs) ?c1)) = completions evs"
    by (rule transportRun_paho_readyCount) simp
  with step show "readyCount (fst (transportRun (Connect None # map Paho evs) c)) = completions evs"
    by (simp add: readyCount_def split: prod.splits)
qed

theorem ready_once_per_completed_connection_witness:
  "\<not> isConnected MqttClient_new \<and>
   readyCount (fst (transportRun
      (Connect None # map Paho [ActionSuccess, ConnectComplete False, ConnectionLost ''timeout'',
          ConnectComplete True, ConnectionLost ''timeout'', ConnectComplete True])
      MqttClient_new)) = 3 \<and>
   connect None (MqttClient_new \<lparr> isConnected := True \<rparr>)
     = ([OnSuccess], MqttClient_new \<lparr> isConnected := True \<rparr>)"
  using ready_once_per_completed_connection
    [of MqttClient_new None "[ActionSuccess, ConnectComplete False, ConnectionLost ''timeout'',
          ConnectComplete True, ConnectionLost ''timeout'', ConnectComplete True]"]
    ready_once_per_completed_connection [of "MqttClient_new \<lparr> isConnected := True \<rparr>" None "[]"]
  by (simp add: MqttClient_new_def)

section \<open>Publishing while the connection is down\<close>

lemma connect_delivered [simp]: "delivered (snd (connect raised c)) = delivered c"
  by (simp add: connect_def Let_def split: option.splits)

lemma paho_delivered [simp]: "delivered (snd (paho ev c)) = delivered c"
  by (cases ev) (simp_all add: connectComplete_def connectionLost_def actionOnSuccess_def
      actionOnFailure_def logLine_def Let_def)

lemma transportRun_delivered: "delivered (snd (transportRun ops c)) = delivered c"
proof (induction ops arbitrary: c)
  case Nil
  show ?case by simp
next
  case (Cons op ops)
  have "delivered (snd (transportStep op c)) = delivered c"
    by (cases op) simp_all
  with Cons.IH [of "snd (transportStep op c)"] show ?case
    by (simp add: split_beta)
qed

text \<open>
  C8. A \<open>publish\<close> on a client that is down only appends the warning to the log: the
  frame is not handed to the client, and no later connect or client event (a reconnect
  included) hands it over either. In the service, \<open>publishData\<close> then changes nothing
  but that log; a tick in this situation leaves the delivered messages, the running
  flag and the live state as they were, and the tick after it builds nothing.
\<close>

theorem publish_while_down_drops_frame:
  assumes "\<not> isConnected c"
  shows "publish raised frame c =
           c\<lparr> logcat := logcat c @ [(W, ''MQTT client is not connected. Cannot publish.'')] \<rparr> \<and>
         delivered (snd (transportRun ops (publish raised frame c))) = delivered c \<and>
         (mqttClient s = Some c \<longrightarrow>
            publishData raised frame s =
              s\<lparr> mqttClient := Some (c\<lparr> logcat := logcat c @
                     [(W, ''MQTT client is not connected. Cannot publish.'')] \<rparr>) \<rparr> \<and>
            map_option delivered (mqttClient (snd (sendCombinedDataPacket now raised s)))
              = Some (delivered c) \<and>
            isServiceRunningFlow (snd (sendCombinedDataPacket now raised s))
              = isServiceRunningFlow s \<and>
            liveSensorState (snd (sendCombinedDataPacket now raised s)) = liveSensorState s \<and>
            fst (sendCombinedDataPacket now' raised' (snd (sendCombinedDataPacket now raised s)))
              = [])"
proof -
  have p: "publish raised frame c =
           c\<lparr> logcat := logcat c @ [(W, ''MQTT client is not connected. Cannot publish.'')] \<rparr>"
    using assms by (simp add: publish_def logLine_def)
  have d: "delivered (snd (transportRun ops (publish raised frame c))) = delivered c"
    by (simp add: transportRun_delivered p)
  have "map_option delivered (mqttClient (snd (sendCombinedDataPacket now raised s)))
              = Some (delivered c)"
    if "mqttClient s = Some c"
    using that assms by (simp add: sendCombinedDataPacket_def Let_def publish_def logLine_def)
  moreover have "isServiceRunningFlow (snd (sendCombinedDataPacket now raised s))
              = isServiceRunningFlow s"
    by (simp add: sendCombinedDataPacket_def Let_def)
  moreover have "fst (sendCombinedDataPacket now' raised' (snd (sendCombinedDataPacket now raised s))) = []"
    by (rule tick_quiet) (rule hasStateChanged_after_tick)
  moreover have "publishData raised frame s =
              s\<lparr> mqttClient := Some (c\<lparr> logcat := logcat c @
                     [(W, ''MQTT client is not connected. Cannot publish.'')] \<rparr>) \<rparr>"
    if "mqttClient s = Some c"
    using that p by (simp add: publishData_def)
  ultimately show ?thesis using p d by (simp add: tick_live)
qed

theorem publish_while_down_drops_frame_witness:
  "\<not> isConnected MqttClient_new \<and>
   hasStateChanged (connectSucceeded ((DataCollectionService_new ''t'')
     \<lparr> mqttClient := Some MqttClient_new,
       liveSensorState := LiveSensorState_default \<lparr> LiveSensorState.accX := 1 \<rparr> \<rparr>)) \<and>
   map_option delivered (mqttClient (snd (sendCombinedDataPacket 5 None
     (connectSucceeded ((DataCollectionService_new ''t'')
       \<lparr> mqttClient := Some MqttClient_new,
         liveSensorState := LiveSensorState_default \<lparr> LiveSensorState.accX := 1 \<rparr> \<rparr>)))))
     = Some [] \<and>
   map_option logcat (mqttClient (snd (sendCombinedDataPacket 5 None
     (connectSucceeded ((DataCollectionService_new ''t'')
       \<lparr> mqttClient := Some MqttClient_new,
         liveSensorState := LiveSensorState_default \<lparr> LiveSensorState.accX := 1 \<rparr> \<rparr>)))))
     = Some [(W, ''MQTT client is not connected. Cannot publish.'')] \<and>
   isServiceRunningFlow (snd (sendCombinedDataPacket 5 None
     (connectSucceeded ((DataCollectionService_new ''t'')
       \<lparr> mqttClient := Some MqttClient_new,
         liveSensorState := LiveSensorState_default \<lparr> LiveSensorState.accX := 1 \<rparr> \<rparr>))))
     = [True]"
proof -
  let ?s = "connectSucceeded ((DataCollectionService_new ''t'')
     \<lparr> mqttClient := Some MqttClient_new,
       liveSensorState := LiveSensorState_default \<lparr> LiveSensorState.accX := 1 \<rparr> \<rparr>)"
  have down: "\<not> isConnected MqttClient_new" by (simp add: MqttClient_new_def)
  have g: "hasStateChanged ?s"
    by (simp add: hasStateChanged_def thresholds DataCollectionService_new_def
        LiveSensorState_default_def connectSucceeded_def)
  have c: "mqttClient ?s = Some MqttClient_new"
    by (simp add: DataCollectionService_new_def connectSucceeded_def)
  have r: "isServiceRunningFlow ?s = [True]"
    by (simp add: DataCollectionService_new_def connectSucceeded_def)
  note drop = publish_while_down_drops_frame [OF down, where s = ?s and now = 5 and raised = None]
  have "map_option delivered (mqttClient (snd (sendCombinedDataPacket 5 None ?s))) = Some []"
    using drop c by (simp add: MqttClient_new_def)
  moreover have "isServiceRunningFlow (snd (sendCombinedDataPacket 5 None ?s)) = [True]"
    using drop c r by simp
  moreover have "map_option logcat (mqttClient (snd (sendCombinedDataPacket 5 None ?s)))
     = Some [(W, ''MQTT client is not connected. Cannot publish.'')]"
    using g c by (simp add: sendCombinedDataPacket_def Let_def publish_def logLine_def
        MqttClient_new_def)
  ultimately show ?thesis using down g by blast
qed

section \<open>Derived magnitudes\<close>

lemma upTo_refl: "upTo u 0 t t"
  by (simp add: upTo_def)

lemma upTo_step:
  assumes "\<bar>r - v\<bar> \<le> u * \<bar>v\<bar>" "0 \<le> u" "u \<le> 1" "0 \<le> t" "upTo u m v t"
  shows "upTo u (Suc m) r t"
proof -
  have lo: "0 \<le> (1 - u) ^ m * t" using assms by simp
  with assms(5) have v0: "0 \<le> v" unfolding upTo_def by linarith
  with assms(1) have b: "(1 - u) * v \<le> r" "r \<le> (1 + u) * v"
    by (simp_all add: algebra_simps abs_le_iff)
  have "(1 - u) * ((1 - u) ^ m * t) \<le> (1 - u) * v"
    using assms by (intro mult_left_mono) (simp_all add: upTo_def)
  moreover have "(1 + u) * v \<le> (1 + u) * ((1 + u) ^ m * t)"
    using assms by (intro mult_left_mono) (simp_all add: upTo_def)
  ultimately show ?thesis using b by (simp add: upTo_def mult.assoc)
qed

lemma upTo_Suc:
  assumes "0 \<le> u" "u \<le> 1" "0 \<le> t" "upTo u m v t"
  shows "upTo u (Suc m) v t"
proof -
  have "(1 - u) * ((1 - u) ^ m * t) \<le> 1 * ((1 - u) ^ m * t)"
    using assms by (intro mult_right_mono) simp_all
  moreover have "1 * ((1 + u) ^ m * t) \<le> (1 + u) * ((1 + u) ^ m * t)"
    using assms by (intro mult_right_mono) simp_all
  ultimately show ?thesis using assms(4) by (simp add: upTo_def mult.assoc)
qed

lemma upTo_add:
  assumes "upTo u m v t" "upTo u m w s"
  shows "upTo u m (v + w) (t + s)"
  using assms by (simp add: upTo_def distrib_left)

lemma upTo_sqrt:
  assumes "0 \<le> u" "u \<le> 1" "0 \<le> t" "upTo u (2 * m) v t"
  shows "upTo u m (sqrt v) (sqrt t)"
proof -
  have "((1 - u) ^ m * sqrt t)\<^sup>2 = (1 - u) ^ (2 * m) * t"
    using assms by (simp add: power_mult_distrib power_mult [symmetric] mult.commute)
  with assms have "((1 - u) ^ m * sqrt t)\<^sup>2 \<le> v" by (simp add: upTo_def)
  then have lo: "(1 - u) ^ m * sqrt t \<le> sqrt v" by (rule real_le_rsqrt)
  have "((1 + u) ^ m * sqrt t)\<^sup>2 = (1 + u) ^ (2 * m) * t"
    using assms by (simp add: power_mult_distrib power_mult [symmetric] mult.commute)
  with assms have "v \<le> ((1 + u) ^ m * sqrt t)\<^sup>2" by (simp add: upTo_def)
  moreover have "0 \<le> (1 + u) ^ m * sqrt t" using assms by simp
  ultimately have "sqrt v \<le> (1 + u) ^ m * sqrt t" by (intro real_le_lsqrt) simp_all
  with lo show ?thesis by (simp add: upTo_def)
qed

text \<open>One Float rounding of a value that is zero or far enough above the subnormal range.\<close>

lemma upTo_float32:
  assumes "upTo (1 / 2 ^ 24) m v t" and "m \<le> 4" and "t = 0 \<or> 1 / 2 ^ 122 \<le> t"
  shows "upTo (1 / 2 ^ 24) (Suc m) (float32 v) t"
proof (cases "t = 0")
  case True
  with assms(1) have "v = 0" by (simp add: upTo_def)
  with True show ?thesis by (simp add: upTo_def)
next
  case False
  with assms(3) have t: "1 / 2 ^ 122 \<le> t" by simp
  then have t0: "0 \<le> t" by (simp add: order_trans [of 0 "1 / 2 ^ 122" t])
  have "(1 / 2 :: real) ^ 4 \<le> (1 / 2) ^ m"
    using assms(2) by (intro power_decreasing) simp_all
  also have "\<dots> \<le> (1 - 1 / 2 ^ 24 :: real) ^ m"
    by (intro power_mono) simp_all
  finally have k: "(1 / 2 :: real) ^ 4 \<le> (1 - 1 / 2 ^ 24) ^ m" .
  have "(1 / 2) ^ 4 * (1 / 2 ^ 122) \<le> (1 - 1 / 2 ^ 24) ^ m * t"
    using k t by (intro mult_mono) simp_all
  also have "\<dots> \<le> v" using assms(1) by (simp add: upTo_def)
  finally have "(1 / 2) ^ 4 * (1 / 2 ^ 122) \<le> v" .
  moreover have "(1 / 2 :: real) ^ 4 * (1 / 2 ^ 122) = 1 / 2 ^ 126"
    by (simp add: power_divide)
  ultimately have v: "1 / 2 ^ 126 \<le> v" by (simp only:)
  then have v0: "0 \<le> v" by (simp add: order_trans [of 0 "1 / 2 ^ 126" v])
  have "2 powr (- 126) \<le> \<bar>v\<bar>"
    using v v0 by (simp add: powr_neg_numeral)
  then have "\<bar>float32 v - v\<bar> \<le> 1 / 2 ^ 24 * \<bar>v\<bar>"
    using float32_accurate [of v] by simp
  then show ?thesis
    using assms(1) t0 by (intro upTo_step [where v = v]) simp_all
qed

lemma square_range:
  assumes "(x :: real) = 0 \<or> 1 / 2 ^ 60 \<le> \<bar>x\<bar>"
  shows "x * x = 0 \<or> 1 / 2 ^ 120 \<le> x * x"
proof (cases "x = 0")
  case True
  then show ?thesis by simp
next
  case False
  with assms have a: "1 / 2 ^ 60 \<le> \<bar>x\<bar>" by simp
  have "(1 / 2 ^ 60) * (1 / 2 ^ 60) \<le> \<bar>x\<bar> * \<bar>x\<bar>"
    using a by (intro mult_mono) simp_all
  then show ?thesis by simp
qed

lemma magnitude_upTo:
  assumes "inFloatRange x y z"
  shows "upTo (1 / 2 ^ 24) 3 (magnitude x y z) (sqrt (x * x + y * y + z * z))"
proof -
  let ?u = "1 / 2 ^ 24 :: real"
  have u: "0 \<le> ?u" "?u \<le> 1" by simp_all
  from assms have hx: "x = 0 \<or> 1 / 2 ^ 60 \<le> \<bar>x\<bar>"
    and hy: "y = 0 \<or> 1 / 2 ^ 60 \<le> \<bar>y\<bar>"
    and hz: "z = 0 \<or> 1 / 2 ^ 60 \<le> \<bar>z\<bar>"
    unfolding inFloatRange_def by blast+
  note rx = square_range [OF hx] and ry = square_range [OF hy] and rz = square_range [OF hz]
  have w: "a = 0 \<or> 1 / 2 ^ 120 \<le> a \<Longrightarrow> a = 0 \<or> 1 / 2 ^ 122 \<le> a" for a :: real
    by (auto intro: order_trans [of "1 / 2 ^ 122" "1 / 2 ^ 120"])
  have a: "upTo ?u 1 (float32 (x * x)) (x * x)"
    using upTo_float32 [OF upTo_refl, of "x * x"] w [OF rx] by simp
  have b: "upTo ?u 1 (float32 (y * y)) (y * y)"
    using upTo_float32 [OF upTo_refl, of "y * y"] w [OF ry] by simp
  have c: "upTo ?u 1 (float32 (z * z)) (z * z)"
    using upTo_float32 [OF upTo_refl, of "z * z"] w [OF rz] by simp
  have xy0: "0 \<le> x * x + y * y" by simp
  have rxy: "x * x + y * y = 0 \<or> 1 / 2 ^ 122 \<le> x * x + y * y"
  proof (cases "x * x = 0 \<and> y * y = 0")
    case True
    then show ?thesis by simp
  next
    case False
    with rx ry have "1 / 2 ^ 120 \<le> x * x \<or> 1 / 2 ^ 120 \<le> y * y" by auto
    moreover have "0 \<le> x * x" "0 \<le> y * y" by simp_all
    ultimately have "1 / 2 ^ 120 \<le> x * x + y * y" by linarith
    then show ?thesis by (auto intro: order_trans [of "1 / 2 ^ 122" "1 / 2 ^ 120"])
  qed
  have rs: "x * x + y * y + z * z = 0 \<or> 1 / 2 ^ 122 \<le> x * x + y * y + z * z"
  proof (cases "x * x + y * y = 0 \<and> z * z = 0")
    case True
    then show ?thesis by simp
  next
    case False
    with rxy rz have "1 / 2 ^ 122 \<le> x * x + y * y \<or> 1 / 2 ^ 120 \<le> z * z" by auto
    moreover have "0 \<le> z * z" by simp
    moreover have "(1 / 2 ^ 122 :: real) \<le> 1 / 2 ^ 120" by simp
    ultimately have "1 / 2 ^ 122 \<le> x * x + y * y + z * z" using xy0 by linarith
    then show ?thesis by simp
  qed
  have s1: "upTo ?u 2 (float32 (float32 (x * x) + float32 (y * y))) (x * x + y * y)"
    using upTo_float32 [OF upTo_add [OF a b]] rxy by (simp add: numeral_2_eq_2)
  have c2: "upTo ?u 2 (float32 (z * z)) (z * z)"
    using upTo_Suc [OF u _ c] by (simp add: numeral_2_eq_2)
  have "upTo ?u 2 (float32 (float32 (x * x) + float32 (y * y)) + float32 (z * z))
          (x * x + y * y + z * z)"
    using s1 c2 by (rule upTo_add)
  then have "upTo ?u 3 (float32 (float32 (float32 (x * x) + float32 (y * y)) + float32 (z * z)))
          (x * x + y * y + z * z)"
    using upTo_float32 [of 2 _ "x * x + y * y + z * z"] rs by (simp add: numeral_3_eq_3)
  then have "upTo ?u 4 (float32 (float32 (float32 (x * x) + float32 (y * y)) + float32 (z * z)))
          (x * x + y * y + z * z)"
    using upTo_Suc [OF u, of "x * x + y * y + z * z" 3] by (simp add: eval_nat_numeral)
  then have q: "upTo ?u 2
       (sqrt (float32 (float32 (float32 (x * x) + float32 (y * y)) + float32 (z * z))))
       (sqrt (x * x + y * y + z * z))"
    using upTo_sqrt [OF u, of "x * x + y * y + z * z" 2] by simp
  have rn: "sqrt (x * x + y * y + z * z) = 0 \<or> 1 / 2 ^ 122 \<le> sqrt (x * x + y * y + z * z)"
  proof (cases "x * x + y * y + z * z = 0")
    case True
    then show ?thesis by simp
  next
    case False
    with rs have "1 / 2 ^ 122 \<le> x * x + y * y + z * z" by simp
    moreover have "((1 / 2 ^ 61 :: real))\<^sup>2 = 1 / 2 ^ 122" by (simp add: power2_eq_square)
    ultimately have "(1 / 2 ^ 61 :: real) \<le> sqrt (x * x + y * y + z * z)"
      by (intro real_le_rsqrt) simp
    moreover have "(1 / 2 ^ 122 :: real) \<le> 1 / 2 ^ 61" by simp
    ultimately show ?thesis by linarith
  qed
  show ?thesis
    unfolding magnitude_def
    using upTo_float32 [OF q _ rn] by (simp add: numeral_3_eq_3)
qed

lemma magnitude_relative_error:
  assumes "inFloatRange x y z"
  shows "\<bar>magnitude x y z - sqrt (x * x + y * y + z * z)\<bar>
           \<le> sqrt (x * x + y * y + z * z) / 10 ^ 6"
proof -
  let ?N = "sqrt (x * x + y * y + z * z)"
  let ?q = "magnitude x y z"
  let ?u = "1 / 2 ^ 24 :: real"
  have N: "0 \<le> ?N" by simp
  from magnitude_upTo [OF assms]
  have lo: "(1 - ?u) ^ 3 * ?N \<le> ?q" and hi: "?q \<le> (1 + ?u) ^ 3 * ?N"
    by (simp_all add: upTo_def)
  have K: "(1 + ?u) ^ 3 - 1 \<le> 1 / 10 ^ 6" by (simp add: power3_eq_cube)
  have k: "1 - (1 - ?u) ^ 3 \<le> 1 / 10 ^ 6" by (simp add: power3_eq_cube)
  have "?q - ?N \<le> ((1 + ?u) ^ 3 - 1) * ?N" using hi by (simp add: algebra_simps)
  also have "\<dots> \<le> 1 / 10 ^ 6 * ?N" using K N by (intro mult_right_mono)
  finally have up: "?q - ?N \<le> ?N / 10 ^ 6" by simp
  have "?N - ?q \<le> (1 - (1 - ?u) ^ 3) * ?N" using lo by (simp add: algebra_simps)
  also have "\<dots> \<le> 1 / 10 ^ 6 * ?N" using k N by (intro mult_right_mono)
  finally have down: "?N - ?q \<le> ?N / 10 ^ 6" by simp
  from up down show ?thesis by linarith
qed

lemma float32_900: "float32 900 = 900"
  using float32_eval [of 900 9 14745600] by (simp add: powr_neg_numeral)

lemma float32_400: "float32 400 = 400"
  using float32_eval [of 400 8 13107200] by (simp add: powr_neg_numeral)

lemma float32_100: "float32 100 = 100"
  using float32_eval [of 100 6 13107200] by (simp add: powr_neg_numeral)

lemma float32_1300: "float32 1300 = 1300"
  using float32_eval [of 1300 10 10649600] by (simp add: powr_neg_numeral)

lemma float32_1400: "float32 1400 = 1400"
  using float32_eval [of 1400 10 11468800] by (simp add: powr_neg_numeral)

lemma sqrt_1400_bounds:
  "19617059 / 524288 < sqrt 1400" "sqrt 1400 < 19617061 / 524288"
  "9808530 / 262144 + 1 / 10 ^ 6 < sqrt 1400"
proof -
  show "19617059 / 524288 < sqrt 1400"
    by (rule real_less_rsqrt) (simp add: power2_eq_square)
  show "sqrt 1400 < 19617061 / 524288"
    by (rule real_less_lsqrt) (simp_all add: power2_eq_square)
  show "9808530 / 262144 + 1 / 10 ^ 6 < sqrt 1400"
    by (rule real_less_rsqrt) (simp add: power2_eq_square)
qed

lemma float32_sqrt_1400: "float32 (sqrt 1400) = 9808530 / 262144"
proof -
  have "32 < sqrt 1400" by (rule real_less_rsqrt) simp
  moreover have "sqrt 1400 < 64" by (rule real_less_lsqrt) simp_all
  ultimately show ?thesis
    using float32_eval [of "sqrt 1400" 5 9808530] sqrt_1400_bounds(1,2)
    by (simp add: powr_neg_numeral)
qed

lemma magnitude_30_20_10: "magnitude 30 20 10 = 9808530 / 262144"
  by (simp add: magnitude_def float32_900 float32_400 float32_100 float32_1300
      float32_1400 float32_sqrt_1400)

lemma frame_magnitudes:
  assumes "f \<in> set (fst (sendCombinedDataPacket now raised s))"
  shows "TelematicsData.accMag f =
           magnitude (LiveSensorState.accX (liveSensorState s))
             (LiveSensorState.accY (liveSensorState s)) (LiveSensorState.accZ (liveSensorState s))"
    and "TelematicsData.gyroMag f =
           magnitude (LiveSensorState.gyroX (liveSensorState s))
             (LiveSensorState.gyroY (liveSensorState s)) (LiveSensorState.gyroZ (liveSensorState s))"
  using assms by (auto simp add: sendCombinedDataPacket_def Let_def split: if_splits)

text \<open>
  C9, as stated with the tolerance \<open>1e-6\<close>, fails: after an accelerometer reading of
  (30, 20, 10) the tick builds a frame with these components whose \<open>accMag\<close> is
  \<open>9808530 / 262144\<close> (37.41657257...), the \<^verbatim>\<open>Float\<close> nearest to the square root of
  1400, and that is more than \<open>1e-6\<close> below the Euclidean norm.
\<close>

theorem magnitude_beyond_absolute_tolerance_counterexample:
  "fst (sendCombinedDataPacket 0 None (snd (onSensorChanged
      (Some \<lparr> sensorType = TYPE_ACCELEROMETER, eventValues = [30, 20, 10] \<rparr>)
      (DataCollectionService_new ''t'')))) \<noteq> [] \<and>
   TelematicsData.accX (hd (fst (sendCombinedDataPacket 0 None (snd (onSensorChanged
      (Some \<lparr> sensorType = TYPE_ACCELEROMETER, eventValues = [30, 20, 10] \<rparr>)
      (DataCollectionService_new ''t'')))))) = 30 \<and>
   TelematicsData.accY (hd (fst (sendCombinedDataPacket 0 None (snd (onSensorChanged
      (Some \<lparr> sensorType = TYPE_ACCELEROMETER, eventValues = [30, 20, 10] \<rparr>)
      (DataCollectionService_new ''t'')))))) = 20 \<and>
   TelematicsData.accZ (hd (fst (sendCombinedDataPacket 0 None (snd (onSensorChanged
      (Some \<lparr> sensorType = TYPE_ACCELEROMETER, eventValues = [30, 20, 10] \<rparr>)
      (DataCollectionService_new ''t'')))))) = 10 \<and>
   TelematicsData.accMag (hd (fst (sendCombinedDataPacket 0 None (snd (onSensorChanged
      (Some \<lparr> sensorType = TYPE_ACCELEROMETER, eventValues = [30, 20, 10] \<rparr>)
      (DataCollectionService_new ''t'')))))) = 9808530 / 262144 \<and>
   1 / 10 ^ 6 < \<bar>TelematicsData.accMag (hd (fst (sendCombinedDataPacket 0 None (snd (onSensorChanged
      (Some \<lparr> sensorType = TYPE_ACCELEROMETER, eventValues = [30, 20, 10] \<rparr>)
      (DataCollectionService_new ''t''))))))
       - sqrt (30\<^sup>2 + 20\<^sup>2 + 10\<^sup>2)\<bar>"
proof -
  let ?s = "snd (onSensorChanged
      (Some \<lparr> sensorType = TYPE_ACCELEROMETER, eventValues = [30, 20, 10] \<rparr>)
      (DataCollectionService_new ''t''))"
  have live: "liveSensorState ?s = LiveSensorState_default
      \<lparr> LiveSensorState.accX := 30, LiveSensorState.accY := 20, LiveSensorState.accZ := 10 \<rparr>"
    and lastP: "lastPublishedState ?s = LiveSensorState_default"
    by (simp_all add: onSensorChanged_def DataCollectionService_new_def)
  have g: "hasStateChanged ?s"
    by (simp add: hasStateChanged_def live lastP LiveSensorState_default_def thresholds)
  then have b: "fst (sendCombinedDataPacket 0 None ?s) =
      [hd (fst (sendCombinedDataPacket 0 None ?s))]"
    by (simp add: sendCombinedDataPacket_def Let_def)
  have ne: "fst (sendCombinedDataPacket 0 None ?s) \<noteq> []"
    using g by (simp add: sendCombinedDataPacket_def Let_def)
  have x: "TelematicsData.accX (hd (fst (sendCombinedDataPacket 0 None ?s))) = 30"
    and y: "TelematicsData.accY (hd (fst (sendCombinedDataPacket 0 None ?s))) = 20"
    and z: "TelematicsData.accZ (hd (fst (sendCombinedDataPacket 0 None ?s))) = 10"
    and m: "TelematicsData.accMag (hd (fst (sendCombinedDataPacket 0 None ?s)))
              = magnitude 30 20 10"
    using g by (simp_all add: sendCombinedDataPacket_def Let_def live)
  have "sqrt (30\<^sup>2 + 20\<^sup>2 + 10\<^sup>2) = sqrt 1400" by simp
  then have "1 / 10 ^ 6 < \<bar>9808530 / 262144 - sqrt (30\<^sup>2 + 20\<^sup>2 + 10\<^sup>2)\<bar>"
    using sqrt_1400_bounds(3) by simp
  with ne x y z m show ?thesis
    by (simp only: magnitude_30_20_10) simp
qed

text \<open>
  C9, amended. In every frame the timer task builds, \<open>accMag\<close> and \<open>gyroMag\<close> are
  computed in the call, in \<^verbatim>\<open>Float\<close> arithmetic, from the three accelerometer and
  the three gyroscope components of the live state the frame is built from
  (\<open>LiveSensorState\<close> has no field for them). Where the components are in the range
  that avoids underflow and overflow, each magnitude is within the relative tolerance
  \<open>1e-6\<close> of the Euclidean norm of its components: the difference is at most
  \<open>1e-6\<close> times the norm.
\<close>

theorem frame_magnitudes_within_relative_tolerance:
  assumes "f \<in> set (fst (sendCombinedDataPacket now raised s))"
  shows "TelematicsData.accMag f =
           magnitude (LiveSensorState.accX (liveSensorState s))
             (LiveSensorState.accY (liveSensorState s))
             (LiveSensorState.accZ (liveSensorState s)) \<and>
         TelematicsData.gyroMag f =
           magnitude (LiveSensorState.gyroX (liveSensorState s))
             (LiveSensorState.gyroY (liveSensorState s))
             (LiveSensorState.gyroZ (liveSensorState s)) \<and>
         (inFloatRange (LiveSensorState.accX (liveSensorState s))
            (LiveSensorState.accY (liveSensorState s))
            (LiveSensorState.accZ (liveSensorState s)) \<longrightarrow>
          \<bar>TelematicsData.accMag f -
             sqrt ((LiveSensorState.accX (liveSensorState s))\<^sup>2
                 + (LiveSensorState.accY (liveSensorState s))\<^sup>2
                 + (LiveSensorState.accZ (liveSensorState s))\<^sup>2)\<bar>
            \<le> sqrt ((LiveSensorState.accX (liveSensorState s))\<^sup>2
                    + (LiveSensorState.accY (liveSensorState s))\<^sup>2
                    + (LiveSensorState.accZ (liveSensorState s))\<^sup>2) / 10 ^ 6) \<and>
         (inFloatRange (LiveSensorState.gyroX (liveSensorState s))
            (LiveSensorState.gyroY (liveSensorState s))
            (LiveSensorState.gyroZ (liveSensorState s)) \<longrightarrow>
          \<bar>TelematicsData.gyroMag f -
             sqrt ((LiveSensorState.gyroX (liveSensorState s))\<^sup>2
                 + (LiveSensorState.gyroY (liveSensorState s))\<^sup>2
                 + (LiveSensorState.gyroZ (liveSensorState s))\<^sup>2)\<bar>
            \<le> sqrt ((LiveSensorState.gyroX (liveSensorState s))\<^sup>2
                    + (LiveSensorState.gyroY (liveSensorState s))\<^sup>2
                    + (LiveSensorState.gyroZ (liveSensorState s))\<^sup>2) / 10 ^ 6)"
  using frame_magnitudes [OF assms] magnitude_relative_error
  by (simp add: power2_eq_square)

theorem frame_magnitudes_within_relative_tolerance_witness:
  "inFloatRange 30 20 10 \<and>
   \<bar>TelematicsData.accMag (hd (fst (sendCombinedDataPacket 0 None (snd (onSensorChanged
      (Some \<lparr> sensorType = TYPE_ACCELEROMETER, eventValues = [30, 20, 10] \<rparr>)
      (DataCollectionService_new ''t''))))))
     - sqrt (30\<^sup>2 + 20\<^sup>2 + 10\<^sup>2)\<bar> \<le> sqrt (30\<^sup>2 + 20\<^sup>2 + 10\<^sup>2) / 10 ^ 6"
proof -
  let ?s = "snd (onSensorChanged
      (Some \<lparr> sensorType = TYPE_ACCELEROMETER, eventValues = [30, 20, 10] \<rparr>)
      (DataCollectionService_new ''t''))"
  have live: "liveSensorState ?s = LiveSensorState_default
      \<lparr> LiveSensorState.accX := 30, LiveSensorState.accY := 20, LiveSensorState.accZ := 10 \<rparr>"
    and lastP: "lastPublishedState ?s = LiveSensorState_default"
    by (simp_all add: onSensorChanged_def DataCollectionService_new_def)
  have g: "hasStateChanged ?s"
    by (simp add: hasStateChanged_def live lastP LiveSensorState_default_def thresholds)
  then have "fst (sendCombinedDataPacket 0 None ?s) \<noteq> []"
    by (simp add: sendCombinedDataPacket_def Let_def)
  then have mem: "hd (fst (sendCombinedDataPacket 0 None ?s))
      \<in> set (fst (sendCombinedDataPacket 0 None ?s))"
    by simp
  have r: "inFloatRange 30 20 10" by (simp add: inFloatRange_def)
  from frame_magnitudes_within_relative_tolerance [OF mem] r
  show ?thesis by (auto simp add: live)
qed

section \<open>Fields outside the gate\<close>

text \<open>
  C10. When the live state agrees with the last published one on every accelerometer,
  gyroscope and rotation-vector axis (x, y, z) and on latitude and longitude, whatever
  the speed and the altitude (and the rotation-vector w) are, the gate is false: the
  tick builds no frame, hands nothing to the transport and leaves \<open>lastPublishedState\<close>
  as it was. A frame is built only when the gate passes, and it then carries the speed
  and the altitude of the live state.
\<close>

theorem speed_altitude_alone_never_publish:
  "(LiveSensorState.accX (liveSensorState s) = LiveSensorState.accX (lastPublishedState s) \<and>
    LiveSensorState.accY (liveSensorState s) = LiveSensorState.accY (lastPublishedState s) \<and>
    LiveSensorState.accZ (liveSensorState s) = LiveSensorState.accZ (lastPublishedState s) \<and>
    LiveSensorState.gyroX (liveSensorState s) = LiveSensorState.gyroX (lastPublishedState s) \<and>
    LiveSensorState.gyroY (liveSensorState s) = LiveSensorState.gyroY (lastPublishedState s) \<and>
    LiveSensorState.gyroZ (liveSensorState s) = LiveSensorState.gyroZ (lastPublishedState s) \<and>
    LiveSensorState.rotVecX (liveSensorState s) = LiveSensorState.rotVecX (lastPublishedState s) \<and>
    LiveSensorState.rotVecY (liveSensorState s) = LiveSensorState.rotVecY (lastPublishedState s) \<and>
    LiveSensorState.rotVecZ (liveSensorState s) = LiveSensorState.rotVecZ (lastPublishedState s) \<and>
    LiveSensorState.latitude (liveSensorState s) = LiveSensorState.latitude (lastPublishedState s) \<and>
    LiveSensorState.longitude (liveSensorState s) = LiveSensorState.longitude (lastPublishedState s)
    \<longrightarrow>
      \<not> hasStateChanged s \<and>
      fst (sendCombinedDataPacket now raised s) = [] \<and>
      lastPublishedState (snd (sendCombinedDataPacket now raised s)) = lastPublishedState s \<and>
      mqttClient (snd (sendCombinedDataPacket now raised s)) = mqttClient s) \<and>
   (\<forall>f \<in> set (fst (sendCombinedDataPacket now raised s)).
      hasStateChanged s \<and>
      TelematicsData.speed f = LiveSensorState.speed (liveSensorState s) \<and>
      TelematicsData.altitude f = LiveSensorState.altitude (liveSensorState s))"
proof (intro conjI impI ballI)
  fix f
  assume "f \<in> set (fst (sendCombinedDataPacket now raised s))"
  then show "hasStateChanged s"
    and "TelematicsData.speed f = LiveSensorState.speed (liveSensorState s)"
    and "TelematicsData.altitude f = LiveSensorState.altitude (liveSensorState s)"
    by (auto simp add: sendCombinedDataPacket_def Let_def split: if_splits)
next
  assume same:
   "LiveSensorState.accX (liveSensorState s) = LiveSensorState.accX (lastPublishedState s) \<and>
    LiveSensorState.accY (liveSensorState s) = LiveSensorState.accY (lastPublishedState s) \<and>
    LiveSensorState.accZ (liveSensorState s) = LiveSensorState.accZ (lastPublishedState s) \<and>
    LiveSensorState.gyroX (liveSensorState s) = LiveSensorState.gyroX (lastPublishedState s) \<and>
    LiveSensorState.gyroY (liveSensorState s) = LiveSensorState.gyroY (lastPublishedState s) \<and>
    LiveSensorState.gyroZ (liveSensorState s) = LiveSensorState.gyroZ (lastPublishedState s) \<and>
    LiveSensorState.rotVecX (liveSensorState s) = LiveSensorState.rotVecX (lastPublishedState s) \<and>
    LiveSensorState.rotVecY (liveSensorState s) = LiveSensorState.rotVecY (lastPublishedState s) \<and>
    LiveSensorState.rotVecZ (liveSensorState s) = LiveSensorState.rotVecZ (lastPublishedState s) \<and>
    LiveSensorState.latitude (liveSensorState s) = LiveSensorState.latitude (lastPublishedState s) \<and>
    LiveSensorState.longitude (liveSensorState s) = LiveSensorState.longitude (lastPublishedState s)"
  then have q: "\<not> hasStateChanged s"
    by (simp add: gate_unfold)
  then show "\<not> hasStateChanged s"
    and "fst (sendCombinedDataPacket now raised s) = []"
    and "lastPublishedState (snd (sendCombinedDataPacket now raised s)) = lastPublishedState s"
    and "mqttClient (snd (sendCombinedDataPacket now raised s)) = mqttClient s"
    by (simp_all add: sendCombinedDataPacket_def Let_def)
qed

theorem speed_altitude_alone_never_publish_witness:
  "LiveSensorState.speed (liveSensorState (onLocationResult
      (Some \<lparr> getLatitude = 0, getLongitude = 0, getSpeed = 12, getAltitude = 80 \<rparr>)
      (DataCollectionService_new ''t''))) = 12 \<and>
   LiveSensorState.speed (lastPublishedState (onLocationResult
      (Some \<lparr> getLatitude = 0, getLongitude = 0, getSpeed = 12, getAltitude = 80 \<rparr>)
      (DataCollectionService_new ''t''))) = 0 \<and>
   fst (sendCombinedDataPacket 100 None (onLocationResult
      (Some \<lparr> getLatitude = 0, getLongitude = 0, getSpeed = 12, getAltitude = 80 \<rparr>)
      (DataCollectionService_new ''t''))) = []"
  using speed_altitude_alone_never_publish
    [of "onLocationResult
      (Some \<lparr> getLatitude = 0, getLongitude = 0, getSpeed = 12, getAltitude = 80 \<rparr>)
      (DataCollectionService_new ''t'')" 100 None]
  by (simp add: onLocationResult_def DataCollectionService_new_def LiveSensorState_default_def)

end
